theory Spec2Isabelle
  imports Main "HOL-Library.Finite_Map"
begin

section \<open>liteflow: versioned SQLite databases with named statements\<close>

text \<open>
  A shallow embedding of the Go package \<^verbatim>\<open>liteflow\<close> (the revision with
  \<^verbatim>\<open>initFS\<close> and multi-statement query files). Go's \<^verbatim>\<open>int\<close> is modelled
  by \<open>int\<close>: the only arithmetic is \<^verbatim>\<open>vCurr + 1\<close>, \<^verbatim>\<open>vCurr - 1\<close> and
  \<^verbatim>\<open>lno++\<close>, on versions read from SQLite's \<^verbatim>\<open>user_version\<close> (a signed
  32-bit number) and on line counts, so nothing wraps around in a 64-bit \<^verbatim>\<open>int\<close>;
  versions are assumed to stay inside the range that SQLite stores. A Go
  \<^verbatim>\<open>string\<close> is a byte sequence, here a \<open>char list\<close>.
\<close>

subsection \<open>Error values\<close>

text \<open>
  \<^verbatim>\<open>fmt.Errorf\<close> keeps its format string and its arguments; \<open>ErrorfW\<close> is a
  format with a \<^verbatim>\<open>%w\<close> operand, which \<^verbatim>\<open>errors.Is\<close> unwraps.
  \<open>ErrNotExist\<close> is \<^verbatim>\<open>fs.ErrNotExist\<close>, \<open>External\<close> any error of a
  collaborator (file system, driver) that does not match it, \<open>Joined\<close> the result of
  \<^verbatim>\<open>errors.Join\<close>.
\<close>

datatype arg = S string | I int

datatype error =
    ErrNotExist
  | External string
  | Errorf string "arg list"
  | ErrorfW string "arg list" error
  | Joined "error list"

datatype 'a outcome = Panics | Returns 'a

text \<open>\<^verbatim>\<open>errors.Is(err, fs.ErrNotExist)\<close>: the error or one it wraps is \<open>ErrNotExist\<close>.\<close>

fun errors_Is_ErrNotExist :: "error \<Rightarrow> bool" where
  "errors_Is_ErrNotExist ErrNotExist = True"
| "errors_Is_ErrNotExist (External m) = False"
| "errors_Is_ErrNotExist (Errorf f as) = False"
| "errors_Is_ErrNotExist (ErrorfW f as e) = errors_Is_ErrNotExist e"
| "errors_Is_ErrNotExist (Joined es) = (\<exists>e \<in> set es. errors_Is_ErrNotExist e)"

definition errors_Join :: "error option list \<Rightarrow> error option" where
  "errors_Join errs =
     (let es = List.map_filter id errs in if es = [] then None else Some (Joined es))"

subsection \<open>Collaborators: file systems, the database and its driver\<close>

text \<open>
  An \<^verbatim>\<open>fs.FS\<close> answers \<^verbatim>\<open>fs.ReadDir(fsys, ".")\<close> with an error or the entries
  (name, \<^verbatim>\<open>IsDir\<close>), and \<^verbatim>\<open>Open(name)\<close> with an error or a file. What a file
  is depends on how the code reads it: with \<^verbatim>\<open>io.ReadAll\<close> (an error or the
  content) for version and init scripts, with a \<^verbatim>\<open>bufio.Scanner\<close> (the lines
  \<^verbatim>\<open>s.Text()\<close> yields, then \<^verbatim>\<open>s.Err()\<close>) for query files.
\<close>

record 'c fsys =
  fs_ReadDir :: "error + (string \<times> bool) list"
  fs_Open :: "string \<Rightarrow> error + 'c"

type_synonym script_fs = "(error + string) fsys"
type_synonym query_fs = "(string list \<times> error option) fsys"

text \<open>
  The database behind \<^verbatim>\<open>*sql.DB\<close>: the \<^verbatim>\<open>user_version\<close> pragma and the rest
  of its content. The driver says which calls fail, and what executing a text does to
  the database: \<open>tx_exec\<close> gives the error, if any, and the database afterwards,
  which on an error may hold a part of the script's changes.
  \<^verbatim>\<open>PRAGMA user_version = n\<close> stores \<open>n\<close>.
\<close>

record 'd database =
  user_version :: int
  data :: 'd

datatype stmt = Stmt string

record 'd driver =
  scan_user_version_err :: "'d database \<Rightarrow> error option"
  begin_err :: "'d database \<Rightarrow> error option"
  tx_exec :: "string \<Rightarrow> 'd database \<Rightarrow> error option \<times> 'd database"
  set_user_version_err :: "int \<Rightarrow> 'd database \<Rightarrow> error option"
  commit_err :: "'d database \<Rightarrow> error option"
  prepare_err :: "string \<Rightarrow> 'd database \<Rightarrow> error option"
  stmt_exec :: "stmt \<Rightarrow> arg list \<Rightarrow> 'd database \<Rightarrow> (error + int) \<times> 'd database"

text \<open>
  The struct \<^verbatim>\<open>DB\<close>. A nil \<^verbatim>\<open>fs.FS\<close> is \<open>None\<close>. \<open>execLog\<close> is not a
  field of the struct: it records, in order, every script handed to \<^verbatim>\<open>tx.Exec\<close>,
  so that "no script was executed" can be said.
\<close>

record 'd DB =
  sqlDB :: "'d database"
  versionFS :: "script_fs option"
  upgrades :: "(int, string) fmap"
  downgrades :: "(int, string) fmap"
  initFS :: "script_fs option"
  queryFS :: "query_fs option"
  statements :: "string \<rightharpoonup> stmt"
  execLog :: "string list"

definition UpgradeNone :: int where "UpgradeNone = - 1"
definition UpgradeAll :: int where "UpgradeAll = 0"

subsection \<open>Version, runFileAndSetVersion, Upgrade, Downgrade\<close>

definition Version :: "'d driver \<Rightarrow> 'd DB \<Rightarrow> int \<times> error option" where
  "Version drv db =
     (case scan_user_version_err drv (sqlDB db) of
        Some err \<Rightarrow> (0, Some (ErrorfW ''could not query user_version: %w'' [] err))
      | None \<Rightarrow> (user_version (sqlDB db), None))"

text \<open>
  Transactions of \<^verbatim>\<open>database/sql\<close>. \<^verbatim>\<open>Begin\<close> takes a snapshot of the database;
  \<^verbatim>\<open>tx.Exec\<close> changes the database as the transaction sees it, also when it fails
  (a script that fails may have run some of its statements); \<^verbatim>\<open>tx.Rollback\<close> puts
  the snapshot back; \<^verbatim>\<open>tx.Commit\<close> keeps the changes, or puts the snapshot back
  when it fails. \<open>Tx_Exec_user_version\<close> is \<^verbatim>\<open>tx.Exec\<close> of
  \<^verbatim>\<open>PRAGMA user_version = n\<close>. Nothing else reads the database while a transaction
  is open, so one database value serves for both views.
\<close>

record 'd sqlTx =
  snapshot :: "'d database"

definition sql_Begin :: "'d driver \<Rightarrow> 'd DB \<Rightarrow> error + 'd sqlTx" where
  "sql_Begin drv db =
     (case begin_err drv (sqlDB db) of
        Some err \<Rightarrow> Inl err
      | None \<Rightarrow> Inr \<lparr>snapshot = sqlDB db\<rparr>)"

definition Tx_Exec :: "'d driver \<Rightarrow> string \<Rightarrow> 'd DB \<Rightarrow> error option \<times> 'd DB" where
  "Tx_Exec drv query db =
     (case tx_exec drv query (sqlDB db) of
        (err, d) \<Rightarrow> (err, db\<lparr>sqlDB := d, execLog := execLog db @ [query]\<rparr>))"

definition Tx_Exec_user_version :: "'d driver \<Rightarrow> int \<Rightarrow> 'd DB \<Rightarrow> error option \<times> 'd DB" where
  "Tx_Exec_user_version drv version db =
     (case set_user_version_err drv version (sqlDB db) of
        Some err \<Rightarrow> (Some err, db)
      | None \<Rightarrow> (None, db\<lparr>sqlDB := (sqlDB db)\<lparr>user_version := version\<rparr>\<rparr>))"

definition Tx_Rollback :: "'d sqlTx \<Rightarrow> 'd DB \<Rightarrow> 'd DB" where
  "Tx_Rollback tx db = db\<lparr>sqlDB := snapshot tx\<rparr>"

definition Tx_Commit :: "'d driver \<Rightarrow> 'd sqlTx \<Rightarrow> 'd DB \<Rightarrow> error option \<times> 'd DB" where
  "Tx_Commit drv tx db =
     (case commit_err drv (sqlDB db) of
        Some err \<Rightarrow> (Some err, db\<lparr>sqlDB := snapshot tx\<rparr>)
      | None \<Rightarrow> (None, db))"

definition runFileAndSetVersion ::
  "'d driver \<Rightarrow> string \<Rightarrow> int \<Rightarrow> 'd DB \<Rightarrow> (error option \<times> 'd DB) outcome" where
  "runFileAndSetVersion drv filename version db =
     (case versionFS db of
        None \<Rightarrow> Panics
      | Some vfs \<Rightarrow>
         (case fs_Open vfs filename of
            Inl err \<Rightarrow> Returns (Some (ErrorfW ''could not open SQL file '%s': %w'' [S filename] err), db)
          | Inr f \<Rightarrow>
             (case f of
                Inl err \<Rightarrow> Returns (Some (ErrorfW ''could not read SQL file '%s': %w'' [S filename] err), db)
              | Inr content \<Rightarrow>
                 (case sql_Begin drv db of
                    Inl err \<Rightarrow> Returns (Some (ErrorfW ''could not start tx for file '%s': %w'' [S filename] err), db)
                  | Inr tx \<Rightarrow>
                     (case Tx_Exec drv content db of
                        (Some err, db1) \<Rightarrow>
                          Returns (Some (ErrorfW ''could not run SQL file '%s: %w'' [S filename] err),
                                   Tx_Rollback tx db1)
                      | (None, db1) \<Rightarrow>
                         (case Tx_Exec_user_version drv version db1 of
                            (Some err, db2) \<Rightarrow>
                              Returns (Some (ErrorfW ''could not update user_version to %d: %w'' [I version] err),
                                       Tx_Rollback tx db2)
                          | (None, db2) \<Rightarrow>
                             (case Tx_Commit drv tx db2 of
                                (Some err, db3) \<Rightarrow>
                                  Returns (Some (ErrorfW ''could not commit for file %s, version %d: %w'' [S filename, I version] err), db3)
                              | (None, db3) \<Rightarrow> Returns (None, db3))))))))"

function Upgrade :: "'d driver \<Rightarrow> int \<Rightarrow> 'd DB \<Rightarrow> ((int \<times> error option) \<times> 'd DB) outcome" where
  "Upgrade drv version db =
     (case Version drv db of
        (vCurr, Some err) \<Rightarrow> Returns ((vCurr, Some err), db)
      | (vCurr, None) \<Rightarrow>
          if version > 0 \<and> vCurr \<ge> version then Returns ((vCurr, None), db)
          else
            (let vNext = vCurr + 1 in
             case fmlookup (upgrades db) vNext of
               None \<Rightarrow> Returns ((vCurr, None), db)
             | Some nextFileName \<Rightarrow>
                 (case runFileAndSetVersion drv nextFileName vNext db of
                    Panics \<Rightarrow> Panics
                  | Returns (Some err, db') \<Rightarrow>
                      if errors_Is_ErrNotExist err then Returns ((vCurr, None), db')
                      else Returns ((vCurr, Some err), db')
                  | Returns (None, db') \<Rightarrow> Upgrade drv version db')))"
  by pat_completeness auto
termination
proof (relation "measure (\<lambda>(drv, version, db). card {k \<in> fmdom' (upgrades db). user_version (sqlDB db) < k})")
  show "wf (measure (\<lambda>(drv, version, db). card {k \<in> fmdom' (upgrades db). user_version (sqlDB db) < k}))"
    by simp
next
  fix drv :: "'d driver" and version :: int and db db' :: "'d DB"
    and vCurr vNext :: int and e :: "error option"
    and nextFileName :: string and r :: "error option \<times> 'd DB" and e' :: "error option"
  assume v: "(vCurr, e) = Version drv db" "e = None"
    and n: "vNext = vCurr + 1" "fmlookup (upgrades db) vNext = Some nextFileName"
    and r: "runFileAndSetVersion drv nextFileName vNext db = Returns r" "(e', db') = r" "e' = None"
  from v have cur: "vCurr = user_version (sqlDB db)"
    by (cases "scan_user_version_err drv (sqlDB db)") (auto simp: Version_def)
  from r have run: "runFileAndSetVersion drv nextFileName vNext db = Returns (None, db')"
    by simp
  then have new: "user_version (sqlDB db') = vNext" "upgrades db' = upgrades db"
    by (auto simp: runFileAndSetVersion_def sql_Begin_def Tx_Exec_def Tx_Exec_user_version_def
          Tx_Rollback_def Tx_Commit_def split: option.splits sum.splits prod.splits)
  let ?A = "{k \<in> fmdom' (upgrades db). user_version (sqlDB db) < k}"
  let ?B = "{k \<in> fmdom' (upgrades db'). user_version (sqlDB db') < k}"
  have "vNext \<in> ?A" using n cur by (auto intro: fmdom'I)
  moreover have "vNext \<notin> ?B" using new by simp
  moreover have "?B \<subseteq> ?A" using new n cur by auto
  ultimately have "?B \<subset> ?A" by blast
  moreover have "finite ?A" by simp
  ultimately have "card ?B < card ?A" by (rule psubset_card_mono[rotated])
  then show "((drv, version, db'), (drv, version, db))
      \<in> measure (\<lambda>(drv, version, db). card {k \<in> fmdom' (upgrades db). user_version (sqlDB db) < k})"
    by simp
qed

function Downgrade :: "'d driver \<Rightarrow> int \<Rightarrow> 'd DB \<Rightarrow> ((int \<times> error option) \<times> 'd DB) outcome" where
  "Downgrade drv version db =
     (case Version drv db of
        (vCurr, Some err) \<Rightarrow> Returns ((vCurr, Some err), db)
      | (vCurr, None) \<Rightarrow>
          if vCurr \<le> version then Returns ((vCurr, None), db)
          else
            (case fmlookup (downgrades db) vCurr of
               None \<Rightarrow> Returns ((vCurr, None), db)
             | Some nextFileName \<Rightarrow>
                 (case runFileAndSetVersion drv nextFileName (vCurr - 1) db of
                    Panics \<Rightarrow> Panics
                  | Returns (Some err, db') \<Rightarrow>
                      if errors_Is_ErrNotExist err then Returns ((vCurr, None), db')
                      else Returns ((vCurr, Some err), db')
                  | Returns (None, db') \<Rightarrow> Downgrade drv version db')))"
  by pat_completeness auto
termination
proof (relation "measure (\<lambda>(drv, version, db). nat (user_version (sqlDB db) - version))")
  show "wf (measure (\<lambda>(drv, version, db). nat (user_version (sqlDB db) - version)))"
    by simp
next
  fix drv :: "'d driver" and version :: int and db db' :: "'d DB"
    and vCurr :: int and e :: "error option"
    and nextFileName :: string and r :: "error option \<times> 'd DB" and e' :: "error option"
  assume v: "(vCurr, e) = Version drv db" "e = None"
    and n: "\<not> vCurr \<le> version"
    and r: "runFileAndSetVersion drv nextFileName (vCurr - 1) db = Returns r" "(e', db') = r" "e' = None"
  from v have cur: "vCurr = user_version (sqlDB db)"
    by (cases "scan_user_version_err drv (sqlDB db)") (auto simp: Version_def)
  from r have run: "runFileAndSetVersion drv nextFileName (vCurr - 1) db = Returns (None, db')"
    by simp
  then have new: "user_version (sqlDB db') = vCurr - 1"
    by (auto simp: runFileAndSetVersion_def sql_Begin_def Tx_Exec_def Tx_Exec_user_version_def
          Tx_Rollback_def Tx_Commit_def split: option.splits sum.splits prod.splits)
  show "((drv, version, db'), (drv, version, db))
      \<in> measure (\<lambda>(drv, version, db). nat (user_version (sqlDB db) - version))"
    using new cur n by simp
qed

subsection \<open>Strings and the three regular expressions of the statement loader\<close>

text \<open>
  \<^verbatim>\<open>strings.TrimSpace\<close> removes leading and trailing Unicode white space. On the
  UTF-8 bytes of a Go string that is: the six ASCII characters, U+0085 and U+00A0 (two
  bytes), and U+1680, U+2000 to U+200A, U+2028, U+2029, U+202F, U+205F, U+3000 (three
  bytes).
\<close>

definition asciiSpace :: "char \<Rightarrow> bool" where
  "asciiSpace c = (of_char c \<in> {9, 10, 11, 12, 13, 32 :: nat})"

definition isSpace2 :: "char \<Rightarrow> char \<Rightarrow> bool" where
  "isSpace2 a b = (of_char a = (0xC2::nat) \<and> of_char b \<in> {0x85, 0xA0 :: nat})"

definition isSpace3 :: "char \<Rightarrow> char \<Rightarrow> char \<Rightarrow> bool" where
  "isSpace3 a b c =
     (let x = (of_char a :: nat); y = (of_char b :: nat); z = (of_char c :: nat) in
      (x = 0xE1 \<and> y = 0x9A \<and> z = 0x80) \<or>
      (x = 0xE2 \<and> y = 0x80 \<and> ((0x80 \<le> z \<and> z \<le> 0x8A) \<or> z \<in> {0xA8, 0xA9, 0xAF})) \<or>
      (x = 0xE2 \<and> y = 0x81 \<and> z = 0x9F) \<or>
      (x = 0xE3 \<and> y = 0x80 \<and> z = 0x80))"

fun trimLeft :: "string \<Rightarrow> string" where
  "trimLeft (a # b # c # s) =
     (if asciiSpace a then trimLeft (b # c # s)
      else if isSpace2 a b then trimLeft (c # s)
      else if isSpace3 a b c then trimLeft s
      else a # b # c # s)"
| "trimLeft [a, b] =
     (if asciiSpace a then trimLeft [b] else if isSpace2 a b then [] else [a, b])"
| "trimLeft [a] = (if asciiSpace a then [] else [a])"
| "trimLeft [] = []"

text \<open>\<open>trimRightRev\<close> works on the reversed string, so a rune's bytes come last first.\<close>

fun trimRightRev :: "string \<Rightarrow> string" where
  "trimRightRev (c # b # a # s) =
     (if asciiSpace c then trimRightRev (b # a # s)
      else if isSpace2 b c then trimRightRev (a # s)
      else if isSpace3 a b c then trimRightRev s
      else c # b # a # s)"
| "trimRightRev [c, b] =
     (if asciiSpace c then trimRightRev [b] else if isSpace2 b c then [] else [c, b])"
| "trimRightRev [c] = (if asciiSpace c then [] else [c])"
| "trimRightRev [] = []"

definition TrimSpace :: "string \<Rightarrow> string" where
  "TrimSpace s = rev (trimRightRev (rev (trimLeft s)))"

text \<open>
  The class \<^verbatim>\<open>\s\<close> of Go's regular expressions is \<^verbatim>\<open>[\t\n\f\r ]\<close>, and
  \<^verbatim>\<open>\S\<close> its complement. Under \<^verbatim>\<open>(?i)\<close> each letter of \<^verbatim>\<open>name:\<close> matches
  itself and its capital.
\<close>

definition reSpace :: "char \<Rightarrow> bool" where
  "reSpace c = (of_char c \<in> {9, 10, 12, 13, 32 :: nat})"

definition eqFold :: "char \<Rightarrow> char \<Rightarrow> bool" where
  "eqFold p c = (c = p \<or> (97 \<le> (of_char p :: nat) \<and> (of_char p :: nat) \<le> 122
                            \<and> (of_char c :: nat) + 32 = of_char p))"

text \<open>
  \<^verbatim>\<open>rxNameline = (?i)^--\s*name:\s*(\S+)\<close>. \<open>rxNameline\<close> is
  \<^verbatim>\<open>FindStringSubmatch\<close> reduced to its group 1 (\<^verbatim>\<open>parts[1]\<close>), \<open>None\<close>
  when the line does not match, so \<^verbatim>\<open>MatchString\<close> is \<open>rxNameline line \<noteq> None\<close>.
\<close>

definition rxNameline :: "string \<Rightarrow> string option" where
  "rxNameline line =
     (case line of
        a # b # r0 \<Rightarrow>
          if a = CHR ''-'' \<and> b = CHR ''-'' then
            (let r1 = dropWhile reSpace r0 in
             if length r1 \<ge> 5 \<and> list_all2 eqFold ''name:'' (take 5 r1) then
               (let r2 = dropWhile reSpace (drop 5 r1);
                    tok = takeWhile (\<lambda>c. \<not> reSpace c) r2
                in if tok = [] then None else Some tok)
             else None)
          else None
      | _ \<Rightarrow> None)"

text \<open>\<^verbatim>\<open>rxComment = ^--\<close>.\<close>

definition rxComment :: "string \<Rightarrow> bool" where
  "rxComment line = (take 2 line = ''--'')"

definition strings_Join :: "string list \<Rightarrow> string \<Rightarrow> string" where
  "strings_Join elems sep = (case elems of [] \<Rightarrow> [] | e # es \<Rightarrow> e @ concat (map (\<lambda>x. sep @ x) es))"

definition HasSuffix :: "string \<Rightarrow> string \<Rightarrow> bool" where
  "HasSuffix s suffix = (length s \<ge> length suffix \<and> drop (length s - length suffix) s = suffix)"

definition TrimSuffix :: "string \<Rightarrow> string \<Rightarrow> string" where
  "TrimSuffix s suffix = (if HasSuffix s suffix then take (length s - length suffix) s else s)"

subsection \<open>loadStatements, loadAllStatements\<close>

text \<open>
  The block that \<^verbatim>\<open>loadStatements\<close> runs at a name line and again after the loop
  when lines are buffered: join them, name the query, prepare it and store it.
\<close>

definition prepareBuffered ::
  "'d driver \<Rightarrow> string \<Rightarrow> string \<Rightarrow> string \<Rightarrow> string list \<Rightarrow> int \<Rightarrow> 'd DB \<Rightarrow> error option \<times> 'd DB" where
  "prepareBuffered drv name fn subname lines lno db =
     (let joined = strings_Join lines [CHR 0x0A];
          queryName = (if subname \<noteq> [] then name @ ''.'' @ subname else name)
      in case prepare_err drv joined (sqlDB db) of
           Some err \<Rightarrow>
             (Some (ErrorfW ''[%s:%d] could not prepare '%s': %w'' [S fn, I lno, S queryName] err), db)
         | None \<Rightarrow> (None, db\<lparr>statements := (statements db)(queryName \<mapsto> Stmt joined)\<rparr>))"

text \<open>
  The loop \<^verbatim>\<open>for s.Scan()\<close> over the lines the Scanner yields. It returns the
  error of a failed \<^verbatim>\<open>Prepare\<close>, or the loop variables \<^verbatim>\<open>subname\<close>,
  \<^verbatim>\<open>lines\<close>, \<^verbatim>\<open>lno\<close> at the end of input.
\<close>

fun scanLoop ::
  "'d driver \<Rightarrow> string \<Rightarrow> string \<Rightarrow> string list \<Rightarrow> string \<Rightarrow> string list \<Rightarrow> int \<Rightarrow> 'd DB
     \<Rightarrow> (error + string \<times> string list \<times> int) \<times> 'd DB" where
  "scanLoop drv name fn [] subname lines lno db = (Inr (subname, lines, lno), db)"
| "scanLoop drv name fn (text # rest) subname lines lno db =
     (let line = TrimSpace text in
      if length line = 0 then scanLoop drv name fn rest subname lines lno db
      else
        (let lno = lno + 1 in
         case rxNameline line of
           Some sub \<Rightarrow>
             (case (if length lines > 0 then prepareBuffered drv name fn subname lines lno db
                    else (None, db)) of
                (Some err, db') \<Rightarrow> (Inl err, db')
              | (None, db') \<Rightarrow> scanLoop drv name fn rest sub [] lno db')
         | None \<Rightarrow>
             if \<not> rxComment line then scanLoop drv name fn rest subname (lines @ [line]) lno db
             else scanLoop drv name fn rest subname lines lno db))"

definition loadStatements :: "'d driver \<Rightarrow> string \<Rightarrow> 'd DB \<Rightarrow> error option \<times> 'd DB" where
  "loadStatements drv name db =
     (case queryFS db of
        None \<Rightarrow> (Some (Errorf (''no QueryFS provided, cannot load statement '%s'' @ [CHR 0x27]) [S name]), db)
      | Some qfs \<Rightarrow>
         (let fn = name @ ''.sql'' in
          case fs_Open qfs fn of
            Inl err \<Rightarrow> (Some (ErrorfW ''could not open file '%s': %w'' [S fn] err), db)
          | Inr (tokens, scanErr) \<Rightarrow>
             (case scanLoop drv name fn tokens [] [] 0 db of
                (Inl err, db') \<Rightarrow> (Some err, db')
              | (Inr (subname, lines, lno), db') \<Rightarrow>
                 (case scanErr of
                    Some err \<Rightarrow>
                      (Some (ErrorfW ''could not scan %s (reached line %d): %w'' [S fn, I lno] err), db')
                  | None \<Rightarrow>
                      if length lines > 0 then prepareBuffered drv name fn subname lines lno db'
                      else (None, db')))))"

text \<open>The loop of \<^verbatim>\<open>loadAllStatements\<close> over the directory entries.\<close>

fun loadEntries :: "'d driver \<Rightarrow> (string \<times> bool) list \<Rightarrow> error list \<Rightarrow> 'd DB \<Rightarrow> error list \<times> 'd DB" where
  "loadEntries drv [] errs db = (errs, db)"
| "loadEntries drv ((entryName, isDir) # entries) errs db =
     (if isDir then loadEntries drv entries errs db
      else if \<not> HasSuffix entryName ''.sql'' then loadEntries drv entries errs db
      else
        (let name = TrimSuffix entryName ''.sql'' in
         case loadStatements drv name db of
           (Some err, db') \<Rightarrow> loadEntries drv entries (errs @ [err]) db'
         | (None, db') \<Rightarrow> loadEntries drv entries errs db'))"

text \<open>\<^verbatim>\<open>fs.ReadDir\<close> on a nil \<^verbatim>\<open>fs.FS\<close> calls a method of nil and panics.\<close>

definition loadAllStatements :: "'d driver \<Rightarrow> 'd DB \<Rightarrow> (error list \<times> 'd DB) outcome" where
  "loadAllStatements drv db =
     (case queryFS db of
        None \<Rightarrow> Panics
      | Some qfs \<Rightarrow>
         (case fs_ReadDir qfs of
            Inl err \<Rightarrow> Returns ([ErrorfW ''could not read QueryFS: %w'' [] err], db)
          | Inr entries \<Rightarrow> Returns (loadEntries drv entries [] db)))"

subsection \<open>named, Exec\<close>

text \<open>
  A \<^verbatim>\<open>*sql.Stmt\<close> is \<open>Some\<close> statement or \<open>None\<close> for nil; reading a missing key
  of the Go map gives nil.
\<close>

definition named :: "'d driver \<Rightarrow> string \<Rightarrow> 'd DB \<Rightarrow> (stmt option \<times> error option) \<times> 'd DB" where
  "named drv name db =
     (case statements db name of
        Some s \<Rightarrow> ((Some s, None), db)
      | None \<Rightarrow>
         (case loadStatements drv name db of
            (Some err, db') \<Rightarrow>
              ((None, Some (ErrorfW ''could not load statement '%s': %w'' [S name] err)), db')
          | (None, db') \<Rightarrow> ((statements db' name, None), db')))"

text \<open>
  \<^verbatim>\<open>s.Exec(args...)\<close> on a nil \<^verbatim>\<open>*sql.Stmt\<close> dereferences nil: the process
  panics.
\<close>

definition Exec ::
  "'d driver \<Rightarrow> string \<Rightarrow> arg list \<Rightarrow> 'd DB \<Rightarrow> ((int option \<times> error option) \<times> 'd DB) outcome" where
  "Exec drv name args db =
     (case named drv name db of
        ((s, Some err), db') \<Rightarrow> Returns ((None, Some err), db')
      | ((None, None), db') \<Rightarrow> Panics
      | ((Some s, None), db') \<Rightarrow>
          (case stmt_exec drv s args (sqlDB db') of
             (Inl err, sdb) \<Rightarrow> Returns ((None, Some err), db'\<lparr>sqlDB := sdb\<rparr>)
           | (Inr res, sdb) \<Rightarrow> Returns ((Some res, None), db'\<lparr>sqlDB := sdb\<rparr>)))"

subsection \<open>loadVersions, runInitScripts, New\<close>

text \<open>
  \<^verbatim>\<open>rxVersion = \d+\<close>: \<^verbatim>\<open>FindString\<close> gives the first run of ASCII digits, or
  the empty string. \<^verbatim>\<open>strconv.Atoi\<close> of a digit string is its number, the largest
  \<^verbatim>\<open>int\<close> when the number is beyond it, and 0 for the empty string (the error is
  dropped by \<^verbatim>\<open>vnum, _ :=\<close>).
\<close>

definition isDigit :: "char \<Rightarrow> bool" where
  "isDigit c = (48 \<le> (of_char c :: nat) \<and> (of_char c :: nat) \<le> 57)"

definition rxVersion_FindString :: "string \<Rightarrow> string" where
  "rxVersion_FindString s = takeWhile isDigit (dropWhile (\<lambda>c. \<not> isDigit c) s)"

definition Atoi :: "string \<Rightarrow> int" where
  "Atoi ds = min (foldl (\<lambda>n c. 10 * n + (of_char c - 48)) 0 ds) (2 ^ 63 - 1)"

fun contains :: "string \<Rightarrow> string \<Rightarrow> bool" where
  "contains [] sub = (sub = [])"
| "contains (c # s) sub = (take (length sub) (c # s) = sub \<or> contains s sub)"

text \<open>\<^verbatim>\<open>rxUpgrade = \.up\.\<close> and \<^verbatim>\<open>rxDowngrade = \.down\.\<close>, with \<^verbatim>\<open>MatchString\<close>.\<close>

definition rxUpgrade :: "string \<Rightarrow> bool" where
  "rxUpgrade s = contains s ''.up.''"

definition rxDowngrade :: "string \<Rightarrow> bool" where
  "rxDowngrade s = contains s ''.down.''"

fun versionEntries :: "(string \<times> bool) list \<Rightarrow> 'd DB \<Rightarrow> 'd DB" where
  "versionEntries [] db = db"
| "versionEntries ((entryName, isDir) # entries) db =
     (if isDir then versionEntries entries db
      else
        (let vnum = Atoi (rxVersion_FindString entryName) in
         if vnum > 0 then
           (if rxUpgrade entryName then
              versionEntries entries (db\<lparr>upgrades := fmupd vnum entryName (upgrades db)\<rparr>)
            else if rxDowngrade entryName then
              versionEntries entries (db\<lparr>downgrades := fmupd vnum entryName (downgrades db)\<rparr>)
            else versionEntries entries db)
         else versionEntries entries db))"

definition loadVersions :: "'d DB \<Rightarrow> (error list \<times> 'd DB) outcome" where
  "loadVersions db =
     (case versionFS db of
        None \<Rightarrow> Panics
      | Some vfs \<Rightarrow>
         (case fs_ReadDir vfs of
            Inl err \<Rightarrow> Returns ([ErrorfW ''could not read versionFS: %w'' [] err], db)
          | Inr entries \<Rightarrow> Returns ([], versionEntries entries db)))"

definition runOneScript :: "'d driver \<Rightarrow> string \<Rightarrow> 'd DB \<Rightarrow> (error option \<times> 'd DB) outcome" where
  "runOneScript drv filename db =
     (case initFS db of
        None \<Rightarrow> Panics
      | Some ifs \<Rightarrow>
         (case fs_Open ifs filename of
            Inl err \<Rightarrow> Returns (Some (ErrorfW ''could not open SQL init file '%s': %w'' [S filename] err), db)
          | Inr f \<Rightarrow>
             (case f of
                Inl err \<Rightarrow> Returns (Some (ErrorfW ''could not read SQL init file '%s': %w'' [S filename] err), db)
              | Inr content \<Rightarrow>
                 (case sql_Begin drv db of
                    Inl err \<Rightarrow> Returns (Some (ErrorfW ''could not start tx for init file '%s': %w'' [S filename] err), db)
                  | Inr tx \<Rightarrow>
                     (case Tx_Exec drv content db of
                        (Some err, db1) \<Rightarrow>
                          Returns (Some (ErrorfW ''could not run SQL init file '%s' (rolled back): %w'' [S filename] err),
                                   Tx_Rollback tx db1)
                      | (None, db1) \<Rightarrow>
                         (case Tx_Commit drv tx db1 of
                            (Some err, db2) \<Rightarrow>
                              Returns (Some (ErrorfW ''could not commit for init file '%s': %w'' [S filename] err), db2)
                          | (None, db2) \<Rightarrow> Returns (None, db2)))))))"

fun initEntries :: "'d driver \<Rightarrow> (string \<times> bool) list \<Rightarrow> error list \<Rightarrow> 'd DB \<Rightarrow> (error list \<times> 'd DB) outcome" where
  "initEntries drv [] errs db = Returns (errs, db)"
| "initEntries drv ((entryName, isDir) # entries) errs db =
     (if isDir then initEntries drv entries errs db
      else if \<not> HasSuffix entryName ''.sql'' then initEntries drv entries errs db
      else
        (case runOneScript drv entryName db of
           Panics \<Rightarrow> Panics
         | Returns (Some err, db') \<Rightarrow> initEntries drv entries (errs @ [err]) db'
         | Returns (None, db') \<Rightarrow> initEntries drv entries errs db'))"

definition runInitScripts :: "'d driver \<Rightarrow> 'd DB \<Rightarrow> (error list \<times> 'd DB) outcome" where
  "runInitScripts drv db =
     (case initFS db of
        None \<Rightarrow> Panics
      | Some ifs \<Rightarrow>
         (case fs_ReadDir ifs of
            Inl err \<Rightarrow> Returns ([ErrorfW ''could not read InitFS: %w'' [] err], db)
          | Inr entries \<Rightarrow> initEntries drv entries [] db))"

record Options =
  MaxVersion :: int
  NoPreload :: bool
  VersionFS :: "script_fs option"
  InitFS :: "script_fs option"
  QueryFS :: "query_fs option"

definition defaultOptions :: Options where
  "defaultOptions = \<lparr>MaxVersion = 0, NoPreload = False, VersionFS = None, InitFS = None, QueryFS = None\<rparr>"

text \<open>
  \<^verbatim>\<open>New\<close> in its four stages, each of which appends to \<^verbatim>\<open>errs\<close>. The
  \<^verbatim>\<open>*sql.DB\<close> argument is \<open>None\<close> for nil, and so is \<^verbatim>\<open>opts\<close>.
\<close>

definition New_loadVersions :: "'d DB \<Rightarrow> (error option list \<times> 'd DB) outcome" where
  "New_loadVersions d =
     (if versionFS d \<noteq> None then
        (case loadVersions d of
           Panics \<Rightarrow> Panics
         | Returns (es, d') \<Rightarrow> Returns (map Some es, d'))
      else Returns ([], d))"

definition New_upgrade ::
  "'d driver \<Rightarrow> Options \<Rightarrow> error option list \<times> 'd DB \<Rightarrow> (error option list \<times> 'd DB) outcome" where
  "New_upgrade drv opts st =
     (case st of (errs, d) \<Rightarrow>
        if versionFS d \<noteq> None \<and> MaxVersion opts \<noteq> UpgradeNone then
          (case Upgrade drv (MaxVersion opts) d of
             Panics \<Rightarrow> Panics
           | Returns ((v, err), d') \<Rightarrow> Returns (errs @ [err], d'))
        else Returns (errs, d))"

definition New_init ::
  "'d driver \<Rightarrow> Options \<Rightarrow> error option list \<times> 'd DB \<Rightarrow> (error option list \<times> 'd DB) outcome" where
  "New_init drv opts st =
     (case st of (errs, d) \<Rightarrow>
        if initFS d \<noteq> None \<and> \<not> NoPreload opts then
          (case runInitScripts drv d of
             Panics \<Rightarrow> Panics
           | Returns (es, d') \<Rightarrow> Returns (errs @ map Some es, d'))
        else Returns (errs, d))"

definition New_preload ::
  "'d driver \<Rightarrow> Options \<Rightarrow> error option list \<times> 'd DB \<Rightarrow> (error option list \<times> 'd DB) outcome" where
  "New_preload drv opts st =
     (case st of (errs, d) \<Rightarrow>
        if queryFS d \<noteq> None \<and> \<not> NoPreload opts then
          (case loadAllStatements drv d of
             Panics \<Rightarrow> Panics
           | Returns (loaderrs, d') \<Rightarrow> Returns (errs @ map Some loaderrs, d'))
        else Returns (errs, d))"

definition andThen :: "'a outcome \<Rightarrow> ('a \<Rightarrow> 'b outcome) \<Rightarrow> 'b outcome" where
  "andThen r f = (case r of Panics \<Rightarrow> Panics | Returns x \<Rightarrow> f x)"

definition New ::
  "'d driver \<Rightarrow> 'd database option \<Rightarrow> Options option \<Rightarrow> ('d DB option \<times> error option) outcome" where
  "New drv db opts =
     (case db of
        None \<Rightarrow> Returns (None, Some (Errorf ''non-nil *sql.DB reference required'' []))
      | Some sdb \<Rightarrow>
         (let opts = (case opts of None \<Rightarrow> defaultOptions | Some given \<Rightarrow> given);
              d = \<lparr>sqlDB = sdb, versionFS = VersionFS opts, upgrades = fmempty,
                   downgrades = fmempty, initFS = InitFS opts, queryFS = QueryFS opts,
                   statements = Map.empty, execLog = []\<rparr>
          in andThen (andThen (andThen (andThen (New_loadVersions d) (New_upgrade drv opts))
                        (New_init drv opts)) (New_preload drv opts))
               (\<lambda>(errs, d'). Returns (Some d', errors_Join errs))))"

subsection \<open>Example collaborators\<close>

text \<open>
  A driver on which nothing fails except the script and the query \<^verbatim>\<open>BAD\<close>, and the
  script \<^verbatim>\<open>ATTACH\<close>, whose execution fails with an error that matches
  \<^verbatim>\<open>fs.ErrNotExist\<close>; a script executed with success is appended to the data, and
  the script \<^verbatim>\<open>BAD\<close> leaves a half of its changes behind when it fails. File
  systems are built from association lists, a missing name failing with
  \<^verbatim>\<open>fs.ErrNotExist\<close>.
\<close>

definition demoDriver :: "string list driver" where
  "demoDriver = \<lparr>scan_user_version_err = (\<lambda>_. None), begin_err = (\<lambda>_. None),
     tx_exec = (\<lambda>sql d. if sql = ''BAD'' then (Some (External ''syntax error''), d\<lparr>data := data d @ [''half of BAD'']\<rparr>)
                         else if sql = ''ATTACH'' then (Some ErrNotExist, d)
                         else (None, d\<lparr>data := data d @ [sql]\<rparr>)),
     set_user_version_err = (\<lambda>_ _. None), commit_err = (\<lambda>_. None),
     prepare_err = (\<lambda>sql _. if sql = ''BAD'' then Some (External ''syntax error'') else None),
     stmt_exec = (\<lambda>s args d. (Inr 0, d))\<rparr>"

definition scriptFS :: "(string \<times> string) list \<Rightarrow> script_fs" where
  "scriptFS files = \<lparr>fs_ReadDir = Inr (map (\<lambda>(n, c). (n, False)) files),
      fs_Open = (\<lambda>n. case map_of files n of None \<Rightarrow> Inl ErrNotExist | Some c \<Rightarrow> Inr (Inr c))\<rparr>"

definition linesFS :: "(string \<times> string list) list \<Rightarrow> query_fs" where
  "linesFS files = \<lparr>fs_ReadDir = Inr (map (\<lambda>(n, c). (n, False)) files),
      fs_Open = (\<lambda>n. case map_of files n of None \<Rightarrow> Inl ErrNotExist | Some c \<Rightarrow> Inr (c, None))\<rparr>"

definition demoQueries :: query_fs where
  "demoQueries = linesFS
     [(''one.sql'', [''-- all users'', ''SELECT id'', [], ''  FROM users '']),
      (''two.sql'', [''-- name: a'', ''SELECT a'', ''-- name: b'', ''SELECT b'']),
      (''empty.sql'', [''-- nothing here'', [], ''   '', ''-- name: later'']),
      (''broken.sql'', [''-- name: a'', ''BAD'', ''-- name: b'', ''SELECT b'']),
      (''head.sql'', [''BAD'', ''-- name: b'', ''SELECT b'']),
      (''mixed.sql'', [''SELECT 0'', ''-- name: a'', ''SELECT a'', ''-- name: b'', ''SELECT b'',
                       ''-- name: c'', ''SELECT c''])]"

definition demoDB :: "int \<Rightarrow> (string \<times> string) list \<Rightarrow> (int \<times> string) list \<Rightarrow> (int \<times> string) list
    \<Rightarrow> string list DB" where
  "demoDB v scripts ups downs =
     \<lparr>sqlDB = \<lparr>user_version = v, data = []\<rparr>, versionFS = Some (scriptFS scripts),
      upgrades = fmap_of_list ups, downgrades = fmap_of_list downs, initFS = None,
      queryFS = Some demoQueries, statements = Map.empty, execLog = []\<rparr>"

text \<open>Databases for the examples: an upgrade index with a gap at 3, scripts that fail (the second of three, the only one), one downgrade.\<close>

definition gapDB :: "string list DB" where
  "gapDB = demoDB 0
     [(''001.up.sql'', ''CREATE TABLE a''), (''002.up.sql'', ''CREATE TABLE b''),
      (''004.up.sql'', ''CREATE TABLE d'')]
     [(1, ''001.up.sql''), (2, ''002.up.sql''), (4, ''004.up.sql'')] []"

definition gapDB2 :: "string list DB" where
  "gapDB2 = gapDB\<lparr>sqlDB := \<lparr>user_version = 2, data = [''CREATE TABLE a'', ''CREATE TABLE b'']\<rparr>,
                  execLog := [''CREATE TABLE a'', ''CREATE TABLE b'']\<rparr>"

definition stepDB :: "string list DB" where
  "stepDB = demoDB 0
     [(''001.up.sql'', ''CREATE TABLE a''), (''002.up.sql'', ''BAD''), (''003.up.sql'', ''CREATE TABLE c'')]
     [(1, ''001.up.sql''), (2, ''002.up.sql''), (3, ''003.up.sql'')] []"

definition stepDB1 :: "string list DB" where
  "stepDB1 = stepDB\<lparr>sqlDB := \<lparr>user_version = 1, data = [''CREATE TABLE a'']\<rparr>,
                   execLog := [''CREATE TABLE a'']\<rparr>"

definition attachDB :: "string list DB" where
  "attachDB = demoDB 0 [(''001.up.sql'', ''ATTACH'')] [(1, ''001.up.sql'')] []"

definition downDB :: "string list DB" where
  "downDB = demoDB 2 [(''002.down.sql'', ''DROP TABLE b'')] [] [(2, ''002.down.sql'')]"

definition queriesDB :: "string list DB" where
  "queriesDB = demoDB 0 [] [] []"

definition mixedDB :: "string list DB" where
  "mixedDB = queriesDB\<lparr>statements :=
     [''mixed'' \<mapsto> Stmt ''SELECT 0'', ''mixed.a'' \<mapsto> Stmt ''SELECT a'',
      ''mixed.b'' \<mapsto> Stmt ''SELECT b'', ''mixed.c'' \<mapsto> Stmt ''SELECT c'']\<rparr>"

subsection \<open>The first iterations of the upgrade loop\<close>

text \<open>
  \<open>upgradeSteps drv version n db\<close> is the DB after \<open>n\<close> iterations of the loop of
  \<open>Upgrade\<close> that each run their script with success, and \<open>None\<close> when one of
  these iterations stops the loop or fails.
\<close>

fun upgradeSteps :: "'d driver \<Rightarrow> int \<Rightarrow> nat \<Rightarrow> 'd DB \<Rightarrow> 'd DB option" where
  "upgradeSteps drv version 0 db = Some db"
| "upgradeSteps drv version (Suc n) db =
     (case Version drv db of
        (vCurr, Some err) \<Rightarrow> None
      | (vCurr, None) \<Rightarrow>
          if version > 0 \<and> vCurr \<ge> version then None
          else
            (case fmlookup (upgrades db) (vCurr + 1) of
               None \<Rightarrow> None
             | Some nextFileName \<Rightarrow>
                 (case runFileAndSetVersion drv nextFileName (vCurr + 1) db of
                    Returns (None, db') \<Rightarrow> upgradeSteps drv version n db'
                  | _ \<Rightarrow> None)))"

subsection \<open>Fragments of a query file\<close>

text \<open>
  \<open>contentLines\<close> are the trimmed lines that are neither blank nor comments, and
  \<open>openFragment\<close> those after the last name line: the text of the fragment that is
  still open after the given lines.
\<close>

definition contentLines :: "string list \<Rightarrow> string list" where
  "contentLines ts = filter (\<lambda>l. l \<noteq> [] \<and> \<not> rxComment l) (map TrimSpace ts)"

definition openFragment :: "string list \<Rightarrow> string list" where
  "openFragment ts = contentLines (rev (takeWhile (\<lambda>t. rxNameline (TrimSpace t) = None) (rev ts)))"

section \<open>Properties\<close>

subsection \<open>Auxiliary facts\<close>

declare Upgrade.simps[simp del] Downgrade.simps[simp del]

lemmas tx_defs = sql_Begin_def Tx_Exec_def Tx_Exec_user_version_def Tx_Rollback_def Tx_Commit_def

lemmas demo_defs = demoDB_def demoDriver_def scriptFS_def linesFS_def

lemmas eval_defs = TrimSpace_def asciiSpace_def isSpace2_def isSpace3_def reSpace_def eqFold_def
  rxNameline_def rxComment_def strings_Join_def Let_def

lemma Version_ok:
  "scan_user_version_err drv (sqlDB db) = None \<Longrightarrow> Version drv db = (user_version (sqlDB db), None)"
  by (simp add: Version_def)

lemma Version_None_iff:
  "Version drv db = (v, None) \<longleftrightarrow> scan_user_version_err drv (sqlDB db) = None \<and> v = user_version (sqlDB db)"
  by (auto simp: Version_def split: option.splits)

lemma rxNameline_Nil [simp]: "rxNameline [] = None"
  by (simp add: rxNameline_def)

lemma rxNameline_rxComment: "rxNameline l = Some sub \<Longrightarrow> rxComment l"
  by (auto simp: rxNameline_def rxComment_def split: list.splits if_splits)

lemma prepareBuffered_sqlDB:
  "prepareBuffered drv name fn subname lines lno db = (r, db') \<Longrightarrow> sqlDB db' = sqlDB db"
  by (auto simp: prepareBuffered_def Let_def split: option.splits)

lemma prepareBuffered_ok:
  "prepare_err drv (strings_Join lines [CHR 0x0A]) (sqlDB db) = None \<Longrightarrow>
   prepareBuffered drv name fn subname lines lno db =
     (None, db\<lparr>statements := (statements db)
        ((if subname \<noteq> [] then name @ ''.'' @ subname else name) \<mapsto> Stmt (strings_Join lines [CHR 0x0A]))\<rparr>)"
  by (simp add: prepareBuffered_def Let_def)

lemma prepareBuffered_fail:
  "prepare_err drv (strings_Join lines [CHR 0x0A]) (sqlDB db) = Some e \<Longrightarrow>
   prepareBuffered drv name fn subname lines lno db =
     (Some (ErrorfW ''[%s:%d] could not prepare '%s': %w''
        [S fn, I lno, S (if subname \<noteq> [] then name @ ''.'' @ subname else name)] e), db)"
  by (simp add: prepareBuffered_def Let_def)

lemma contentLines_Nil [simp]: "contentLines [] = []"
  by (simp add: contentLines_def)

lemma contentLines_append [simp]: "contentLines (xs @ ys) = contentLines xs @ contentLines ys"
  by (simp add: contentLines_def)

lemma scanLoop_blank_or_comment:
  "\<forall>t \<in> set tokens. TrimSpace t = [] \<or> rxComment (TrimSpace t) \<Longrightarrow>
   \<exists>sub n. scanLoop drv name fn tokens subname [] lno db = (Inr (sub, [], n), db)"
proof (induction tokens arbitrary: subname lno)
  case Nil
  then show ?case by simp
next
  case (Cons t ts)
  then show ?case
    by (cases "rxNameline (TrimSpace t)") (auto simp: Let_def)
qed

lemma scanLoop_segment:
  "\<forall>t \<in> set seg. rxNameline (TrimSpace t) = None \<Longrightarrow>
   scanLoop drv name fn (seg @ rest) subname lines lno db =
   scanLoop drv name fn rest subname (lines @ contentLines seg)
     (lno + int (length (filter (\<lambda>t. TrimSpace t \<noteq> []) seg))) db"
proof (induction seg arbitrary: lines lno)
  case Nil
  then show ?case by simp
next
  case (Cons t ts)
  then show ?case
    by (simp add: Let_def contentLines_def add.assoc)
qed

lemma scanLoop_marker:
  "rxNameline (TrimSpace m) = Some sub \<Longrightarrow>
   scanLoop drv name fn (m # rest) subname lines lno db =
     (case (if lines \<noteq> [] then prepareBuffered drv name fn subname lines (lno + 1) db else (None, db)) of
        (Some err, db') \<Rightarrow> (Inl err, db')
      | (None, db') \<Rightarrow> scanLoop drv name fn rest sub [] (lno + 1) db')"
  by (cases "TrimSpace m = []") (auto simp: Let_def)

lemma openFragment_snoc:
  "openFragment (done @ [t]) =
     (if rxNameline (TrimSpace t) = None then openFragment done @ contentLines [t] else [])"
  by (simp add: openFragment_def)

lemma openFragment_Nil [simp]: "openFragment [] = []"
  by (simp add: openFragment_def)

lemma scanLoop_Inr:
  assumes "\<forall>t \<in> set rest. TrimSpace t \<noteq> []"
    and "lines = openFragment done"
    and "scanLoop drv name fn rest subname lines lno db = (Inr (sub', lines', lno'), db')"
  shows "lines' = openFragment (done @ rest) \<and> lno' = lno + int (length rest) \<and> sqlDB db' = sqlDB db"
  using assms
proof (induction rest arbitrary: "done" subname lines lno db)
  case Nil
  then show ?case by simp
next
  case (Cons t ts)
  have nb: "TrimSpace t \<noteq> []" and rest: "\<forall>t \<in> set ts. TrimSpace t \<noteq> []"
    using Cons.prems(1) by auto
  show ?case
  proof (cases "rxNameline (TrimSpace t)")
    case None
    have step: "scanLoop drv name fn (t # ts) subname lines lno db =
        scanLoop drv name fn ts subname (lines @ contentLines [t]) (lno + 1) db"
      using None nb by (simp add: Let_def contentLines_def)
    have "lines @ contentLines [t] = openFragment (done @ [t])"
      using None Cons.prems(2) by (simp add: openFragment_snoc)
    from Cons.IH[OF rest this Cons.prems(3)[unfolded step]]
    show ?thesis by simp
  next
    case (Some sub)
    obtain r db1 where p: "(if lines \<noteq> [] then prepareBuffered drv name fn subname lines (lno + 1) db
        else (None, db)) = (r, db1)"
      by (cases "(if lines \<noteq> [] then prepareBuffered drv name fn subname lines (lno + 1) db
        else (None, db))") auto
    then have s1: "sqlDB db1 = sqlDB db"
      by (auto split: if_splits dest: prepareBuffered_sqlDB)
    from Cons.prems(3)[unfolded scanLoop_marker[OF Some] p] have r: "r = None"
      and step: "scanLoop drv name fn ts sub [] (lno + 1) db1 = (Inr (sub', lines', lno'), db')"
      by (auto split: option.splits)
    have "[] = openFragment (done @ [t])"
      using Some by (simp add: openFragment_snoc)
    from Cons.IH[OF rest this step] s1
    show ?thesis by simp
  qed
qed

lemma scanLoop_Inl:
  assumes "\<forall>t \<in> set rest. TrimSpace t \<noteq> []"
    and "lines = openFragment done"
    and "scanLoop drv name fn rest subname lines lno db = (Inl err, db')"
  shows "\<exists>i qn e. i < length rest \<and> rxNameline (TrimSpace (rest ! i)) \<noteq> None
      \<and> err = ErrorfW ''[%s:%d] could not prepare '%s': %w'' [S fn, I (lno + int i + 1), S qn] e
      \<and> prepare_err drv (strings_Join (openFragment (done @ take i rest)) [CHR 0x0A]) (sqlDB db) = Some e"
  using assms
proof (induction rest arbitrary: "done" subname lines lno db)
  case Nil
  then show ?case by simp
next
  case (Cons t ts)
  have nb: "TrimSpace t \<noteq> []" and rest: "\<forall>t \<in> set ts. TrimSpace t \<noteq> []"
    using Cons.prems(1) by auto
  have later: "\<exists>i qn e. i < length (t # ts) \<and> rxNameline (TrimSpace ((t # ts) ! i)) \<noteq> None
      \<and> err = ErrorfW ''[%s:%d] could not prepare '%s': %w'' [S fn, I (lno + int i + 1), S qn] e
      \<and> prepare_err drv (strings_Join (openFragment (done @ take i (t # ts))) [CHR 0x0A]) (sqlDB db) = Some e"
    if ih: "\<exists>i qn e. i < length ts \<and> rxNameline (TrimSpace (ts ! i)) \<noteq> None
      \<and> err = ErrorfW ''[%s:%d] could not prepare '%s': %w'' [S fn, I (lno + 1 + int i + 1), S qn] e
      \<and> prepare_err drv (strings_Join (openFragment ((done @ [t]) @ take i ts)) [CHR 0x0A]) (sqlDB db) = Some e"
  proof -
    from ih obtain i qn e where i: "i < length ts" "rxNameline (TrimSpace (ts ! i)) \<noteq> None"
      "err = ErrorfW ''[%s:%d] could not prepare '%s': %w'' [S fn, I (lno + 1 + int i + 1), S qn] e"
      "prepare_err drv (strings_Join (openFragment ((done @ [t]) @ take i ts)) [CHR 0x0A]) (sqlDB db) = Some e"
      by blast
    have "lno + 1 + int i + 1 = lno + int (Suc i) + 1" by simp
    with i show ?thesis
      by (intro exI[of _ "Suc i"] exI[of _ qn] exI[of _ e]) simp
  qed
  show ?case
  proof (cases "rxNameline (TrimSpace t)")
    case None
    have step: "scanLoop drv name fn (t # ts) subname lines lno db =
        scanLoop drv name fn ts subname (lines @ contentLines [t]) (lno + 1) db"
      using None nb by (simp add: Let_def contentLines_def)
    have "lines @ contentLines [t] = openFragment (done @ [t])"
      using None Cons.prems(2) by (simp add: openFragment_snoc)
    from Cons.IH[OF rest this Cons.prems(3)[unfolded step]]
    show ?thesis by (rule later)
  next
    case (Some sub)
    obtain r db1 where p: "(if lines \<noteq> [] then prepareBuffered drv name fn subname lines (lno + 1) db
        else (None, db)) = (r, db1)"
      by (cases "(if lines \<noteq> [] then prepareBuffered drv name fn subname lines (lno + 1) db
        else (None, db))") auto
    then have s1: "sqlDB db1 = sqlDB db"
      by (auto split: if_splits dest: prepareBuffered_sqlDB)
    note run = Cons.prems(3)[unfolded scanLoop_marker[OF Some] p]
    show ?thesis
    proof (cases r)
      case None
      with run have step: "scanLoop drv name fn ts sub [] (lno + 1) db1 = (Inl err, db')"
        by simp
      have "[] = openFragment (done @ [t])"
        using Some by (simp add: openFragment_snoc)
      from Cons.IH[OF rest this step] s1
      show ?thesis by (intro later) simp
    next
      case (Some e0)
      with run have e0: "e0 = err"
        by simp
      from p Some have ne: "lines \<noteq> []" and pb: "prepareBuffered drv name fn subname lines (lno + 1) db = (Some e0, db1)"
        by (auto split: if_splits)
      then obtain e where e: "prepare_err drv (strings_Join lines [CHR 0x0A]) (sqlDB db) = Some e"
        and err: "e0 = ErrorfW ''[%s:%d] could not prepare '%s': %w''
           [S fn, I (lno + 1), S (if subname \<noteq> [] then name @ ''.'' @ subname else name)] e"
        by (auto simp: prepareBuffered_def Let_def split: option.splits)
      show ?thesis
        using e err e0 Cons.prems(2) \<open>rxNameline (TrimSpace t) = Some sub\<close>
        by (intro exI[of _ 0] exI[of _ "if subname \<noteq> [] then name @ ''.'' @ subname else name"] exI[of _ e]) simp
    qed
  qed
qed

lemma versionEntries_keeps:
  "sqlDB (versionEntries es db) = sqlDB db \<and> execLog (versionEntries es db) = execLog db
   \<and> versionFS (versionEntries es db) = versionFS db \<and> initFS (versionEntries es db) = initFS db
   \<and> queryFS (versionEntries es db) = queryFS db"
  by (induction es db rule: versionEntries.induct) (simp_all add: Let_def)

lemma Upgrade_nonpos: "version \<le> 0 \<Longrightarrow> Upgrade drv version db = Upgrade drv 0 db"
proof (induction drv version db rule: Upgrade.induct)
  case (1 drv version db)
  show ?case
    using 1
    by (simp only: Upgrade.simps[of drv version db] Upgrade.simps[of drv 0 db])
       (auto split: prod.splits option.splits outcome.splits simp: Let_def)
qed

lemma New_skips_upgrade:
  assumes "MaxVersion opts = UpgradeNone" "NoPreload opts"
  shows "\<exists>d' e. New drv (Some sdb) (Some opts) = Returns (Some d', e) \<and> sqlDB d' = sdb \<and> execLog d' = []"
proof (cases "VersionFS opts")
  case None
  then show ?thesis using assms
    by (simp add: New_def Let_def andThen_def New_loadVersions_def New_upgrade_def New_init_def New_preload_def)
next
  case (Some vfs)
  show ?thesis
  proof (cases "fs_ReadDir vfs")
    case (Inl err)
    then show ?thesis using assms Some
      by (simp add: New_def Let_def andThen_def New_loadVersions_def loadVersions_def
            New_upgrade_def New_init_def New_preload_def)
  next
    case (Inr es)
    then show ?thesis using assms Some
      by (simp add: New_def Let_def andThen_def New_loadVersions_def loadVersions_def
            New_upgrade_def New_init_def New_preload_def versionEntries_keeps)
  qed
qed

lemma Upgrade_gapDB:
  "Upgrade demoDriver 0 gapDB =
     Returns ((2, None), gapDB\<lparr>sqlDB := \<lparr>user_version = 2, data = [''CREATE TABLE a'', ''CREATE TABLE b'']\<rparr>,
                               execLog := [''CREATE TABLE a'', ''CREATE TABLE b'']\<rparr>)"
  by (simp add: Upgrade.simps Version_def runFileAndSetVersion_def tx_defs gapDB_def demo_defs Let_def)

lemma Upgrade_failed_step:
  assumes "Version drv db = (vCurr, None)"
    and "\<not> (0 < target \<and> target \<le> vCurr)"
    and "fmlookup (upgrades db) (vCurr + 1) = Some fn"
    and "runFileAndSetVersion drv fn (vCurr + 1) db = Returns (Some err, db')"
  shows "Upgrade drv target db =
           Returns ((vCurr, if errors_Is_ErrNotExist err then None else Some err), db')"
  using assms by (auto simp: Upgrade.simps[of drv target db] Let_def)

lemma upgradeSteps_Upgrade:
  "upgradeSteps drv target n db0 = Some db \<Longrightarrow> Upgrade drv target db0 = Upgrade drv target db"
proof (induction n arbitrary: db0)
  case 0
  then show ?case by simp
next
  case (Suc n)
  from Suc.prems obtain vCurr fn db1 where v: "Version drv db0 = (vCurr, None)"
    and t: "\<not> (0 < target \<and> target \<le> vCurr)"
    and l: "fmlookup (upgrades db0) (vCurr + 1) = Some fn"
    and r: "runFileAndSetVersion drv fn (vCurr + 1) db0 = Returns (None, db1)"
    and s: "upgradeSteps drv target n db1 = Some db"
    by (auto split: prod.splits option.splits if_splits outcome.splits)
  have "Upgrade drv target db0 = Upgrade drv target db1"
    using v t l r by (auto simp: Upgrade.simps[of drv target db0])
  with Suc.IH[OF s] show ?case by simp
qed

lemma upgradeSteps_version:
  "upgradeSteps drv target n db0 = Some db \<Longrightarrow>
   user_version (sqlDB db) = user_version (sqlDB db0) + int n \<and> upgrades db = upgrades db0"
proof (induction n arbitrary: db0)
  case 0
  then show ?case by simp
next
  case (Suc n)
  from Suc.prems obtain vCurr fn db1 where v: "Version drv db0 = (vCurr, None)"
    and r: "runFileAndSetVersion drv fn (vCurr + 1) db0 = Returns (None, db1)"
    and s: "upgradeSteps drv target n db1 = Some db"
    by (auto split: prod.splits option.splits if_splits outcome.splits)
  from v have "vCurr = user_version (sqlDB db0)"
    by (simp add: Version_None_iff)
  moreover from r have "user_version (sqlDB db1) = vCurr + 1 \<and> upgrades db1 = upgrades db0"
    by (auto simp: runFileAndSetVersion_def tx_defs split: option.splits sum.splits prod.splits)
  ultimately show ?case using Suc.IH[OF s] by simp
qed

lemma runFile_exec_fails:
  assumes "versionFS db = Some vfs" and "fs_Open vfs fn = Inr (Inr content)"
    and "begin_err drv (sqlDB db) = None"
    and "tx_exec drv content (sqlDB db) = (Some e, d1)"
  shows "runFileAndSetVersion drv fn v db =
         Returns (Some (ErrorfW ''could not run SQL file '%s: %w'' [S fn] e),
                  db\<lparr>execLog := execLog db @ [content]\<rparr>)"
  using assms by (simp add: runFileAndSetVersion_def tx_defs)

lemma runFile_update_fails:
  assumes "versionFS db = Some vfs" and "fs_Open vfs fn = Inr (Inr content)"
    and "begin_err drv (sqlDB db) = None"
    and "tx_exec drv content (sqlDB db) = (None, d1)"
    and "set_user_version_err drv v d1 = Some e"
  shows "runFileAndSetVersion drv fn v db =
         Returns (Some (ErrorfW ''could not update user_version to %d: %w'' [I v] e),
                  db\<lparr>execLog := execLog db @ [content]\<rparr>)"
  using assms by (simp add: runFileAndSetVersion_def tx_defs)

lemma runFile_commits:
  assumes "versionFS db = Some vfs" and "fs_Open vfs fn = Inr (Inr content)"
    and "begin_err drv (sqlDB db) = None"
    and "tx_exec drv content (sqlDB db) = (None, d1)"
    and "set_user_version_err drv v d1 = None"
    and "commit_err drv (d1\<lparr>user_version := v\<rparr>) = None"
  shows "runFileAndSetVersion drv fn v db =
         Returns (None, db\<lparr>execLog := execLog db @ [content], sqlDB := d1\<lparr>user_version := v\<rparr>\<rparr>)"
  using assms by (simp add: runFileAndSetVersion_def tx_defs)

lemma stepDB_first_step: "upgradeSteps demoDriver 0 1 stepDB = Some stepDB1"
proof -
  have "upgradeSteps demoDriver 0 (Suc 0) stepDB = Some stepDB1"
    by (simp add: Version_def runFileAndSetVersion_def tx_defs stepDB_def stepDB1_def demo_defs)
  then show ?thesis by simp
qed

lemma demoQueries_Open:
  "fs_Open demoQueries ''one.sql'' = Inr ([''-- all users'', ''SELECT id'', [], ''  FROM users ''], None)"
  "fs_Open demoQueries ''two.sql'' = Inr ([''-- name: a'', ''SELECT a'', ''-- name: b'', ''SELECT b''], None)"
  "fs_Open demoQueries ''empty.sql'' = Inr ([''-- nothing here'', [], ''   '', ''-- name: later''], None)"
  "fs_Open demoQueries ''broken.sql'' = Inr ([''-- name: a'', ''BAD'', ''-- name: b'', ''SELECT b''], None)"
  "fs_Open demoQueries ''head.sql'' = Inr ([''BAD'', ''-- name: b'', ''SELECT b''], None)"
  "fs_Open demoQueries ''mixed.sql'' = Inr ([''SELECT 0'', ''-- name: a'', ''SELECT a'', ''-- name: b'', ''SELECT b'',
      ''-- name: c'', ''SELECT c''], None)"
  by (simp_all add: demoQueries_def linesFS_def)

lemma queriesDB_queryFS: "queryFS queriesDB = Some demoQueries"
  by (simp add: queriesDB_def demoDB_def)

lemma queriesDB_statements: "statements queriesDB = Map.empty"
  by (simp add: queriesDB_def demoDB_def)

lemma rxNameline_nonempty: "rxNameline l = Some sub \<Longrightarrow> sub \<noteq> []"
  by (auto simp: rxNameline_def Let_def split: list.splits if_splits)

lemma scanLoop_whole_segment:
  "\<forall>t \<in> set seg. rxNameline (TrimSpace t) = None \<Longrightarrow>
   \<exists>n. scanLoop drv name fn seg subname lines lno db = (Inr (subname, lines @ contentLines seg, n), db)"
  using scanLoop_segment[of seg drv name fn "[]" subname lines lno db] by simp

lemma loadStatements_single:
  assumes "queryFS db = Some qfs" and "fs_Open qfs (name @ ''.sql'') = Inr (tokens, None)"
    and "\<forall>t \<in> set tokens. rxNameline (TrimSpace t) = None"
    and "contentLines tokens \<noteq> []"
    and "prepare_err drv (strings_Join (contentLines tokens) [CHR 0x0A]) (sqlDB db) = None"
  shows "loadStatements drv name db =
     (None, db\<lparr>statements := (statements db)(name \<mapsto> Stmt (strings_Join (contentLines tokens) [CHR 0x0A]))\<rparr>)"
proof -
  from scanLoop_whole_segment[OF assms(3), of drv name "name @ ''.sql''" "[]" "[]" 0 db]
  obtain n where "scanLoop drv name (name @ ''.sql'') tokens [] [] 0 db = (Inr ([], contentLines tokens, n), db)"
    by auto
  then show ?thesis
    using assms(1,2,4) prepareBuffered_ok[OF assms(5), of name "name @ ''.sql''" "[]" n]
    by (simp add: loadStatements_def)
qed

lemma loadStatements_two:
  assumes "queryFS db = Some qfs"
    and "fs_Open qfs (name @ ''.sql'') = Inr (pre @ [ma] @ segA @ [mb] @ segB, None)"
    and "\<forall>t \<in> set (pre @ segA @ segB). rxNameline (TrimSpace t) = None"
    and "contentLines pre \<noteq> [] \<longrightarrow>
           prepare_err drv (strings_Join (contentLines pre) [CHR 0x0A]) (sqlDB db) = None"
    and "rxNameline (TrimSpace ma) = Some a" and "rxNameline (TrimSpace mb) = Some b"
    and "contentLines segA \<noteq> []" and "contentLines segB \<noteq> []"
    and "prepare_err drv (strings_Join (contentLines segA) [CHR 0x0A]) (sqlDB db) = None"
    and "prepare_err drv (strings_Join (contentLines segB) [CHR 0x0A]) (sqlDB db) = None"
  shows "loadStatements drv name db =
     (None, db\<lparr>statements :=
        (if contentLines pre = [] then statements db
         else (statements db)(name \<mapsto> Stmt (strings_Join (contentLines pre) [CHR 0x0A])))
        (name @ ''.'' @ a \<mapsto> Stmt (strings_Join (contentLines segA) [CHR 0x0A]),
         name @ ''.'' @ b \<mapsto> Stmt (strings_Join (contentLines segB) [CHR 0x0A]))\<rparr>)"
proof -
  let ?fn = "name @ ''.sql''"
  let ?JP = "strings_Join (contentLines pre) [CHR 0x0A]"
  let ?JA = "strings_Join (contentLines segA) [CHR 0x0A]"
  let ?JB = "strings_Join (contentLines segB) [CHR 0x0A]"
  let ?st0 = "if contentLines pre = [] then statements db else (statements db)(name \<mapsto> Stmt ?JP)"
  let ?db0 = "db\<lparr>statements := ?st0\<rparr>"
  let ?db1 = "db\<lparr>statements := ?st0(name @ ''.'' @ a \<mapsto> Stmt ?JA)\<rparr>"
  have p: "\<forall>t \<in> set pre. rxNameline (TrimSpace t) = None"
    and sa: "\<forall>t \<in> set segA. rxNameline (TrimSpace t) = None"
    and sb: "\<forall>t \<in> set segB. rxNameline (TrimSpace t) = None"
    using assms(3) by auto
  have a: "a \<noteq> []" and b: "b \<noteq> []"
    using assms(5,6) by (auto dest: rxNameline_nonempty)
  obtain n1 where 1: "scanLoop drv name ?fn (pre @ [ma] @ segA @ [mb] @ segB) [] [] 0 db =
      scanLoop drv name ?fn (ma # segA @ [mb] @ segB) [] (contentLines pre) n1 db"
    using scanLoop_segment[OF p, of drv name ?fn "[ma] @ segA @ [mb] @ segB" "[]" "[]" 0 db]
    by simp
  have 2: "scanLoop drv name ?fn (ma # segA @ [mb] @ segB) [] (contentLines pre) n1 db =
      scanLoop drv name ?fn (segA @ [mb] @ segB) a [] (n1 + 1) ?db0"
  proof (cases "contentLines pre = []")
    case True
    then show ?thesis by (subst scanLoop_marker[OF assms(5)]) simp
  next
    case False
    with assms(4) have "prepare_err drv ?JP (sqlDB db) = None" by simp
    from prepareBuffered_ok[OF this, of name ?fn "[]" "n1 + 1"] False
    show ?thesis by (subst scanLoop_marker[OF assms(5)]) simp
  qed
  obtain n2 where 3: "scanLoop drv name ?fn (segA @ [mb] @ segB) a [] (n1 + 1) ?db0 =
      scanLoop drv name ?fn (mb # segB) a (contentLines segA) n2 ?db0"
    using scanLoop_segment[OF sa, of drv name ?fn "[mb] @ segB" a "[]" "n1 + 1" ?db0] by simp
  have pa: "prepare_err drv ?JA (sqlDB ?db0) = None"
    using assms(9) by simp
  have 4: "scanLoop drv name ?fn (mb # segB) a (contentLines segA) n2 ?db0 =
      scanLoop drv name ?fn segB b [] (n2 + 1) ?db1"
    using assms(7) a prepareBuffered_ok[OF pa, of name ?fn a "n2 + 1"]
    by (subst scanLoop_marker[OF assms(6)]) simp
  obtain n3 where 5: "scanLoop drv name ?fn segB b [] (n2 + 1) ?db1 = (Inr (b, contentLines segB, n3), ?db1)"
    using scanLoop_whole_segment[OF sb, of drv name ?fn b "[]" "n2 + 1" ?db1] by auto
  have 6: "prepare_err drv ?JB (sqlDB ?db1) = None"
    using assms(10) by simp
  have chain: "scanLoop drv name ?fn (pre @ [ma] @ segA @ [mb] @ segB) [] [] 0 db =
      (Inr (b, contentLines segB, n3), ?db1)"
    by (simp only: 1 2 3 4 5)
  show ?thesis
    using assms(1,2,8) b prepareBuffered_ok[OF 6, of name ?fn b n3] chain
    by (simp add: loadStatements_def Let_def)
qed

lemma named_hit: "statements db name = Some s \<Longrightarrow> named drv name db = ((Some s, None), db)"
  by (simp add: named_def)

lemma scanLoop_append:
  "scanLoop drv name fn (xs @ ys) subname lines lno db =
     (case scanLoop drv name fn xs subname lines lno db of
        (Inl err, db1) \<Rightarrow> (Inl err, db1)
      | (Inr (s, l, n), db1) \<Rightarrow> scanLoop drv name fn ys s l n db1)"
proof (induction xs arbitrary: subname lines lno db)
  case Nil
  then show ?case by simp
next
  case (Cons t ts)
  show ?case
  proof (cases "TrimSpace t = []")
    case True
    then show ?thesis using Cons.IH by simp
  next
    case nb: False
    show ?thesis
    proof (cases "rxNameline (TrimSpace t)")
      case None
      then show ?thesis using nb Cons.IH by (simp add: Let_def)
    next
      case (Some sub)
      obtain r db1 where p: "(if lines \<noteq> [] then prepareBuffered drv name fn subname lines (lno + 1) db
          else (None, db)) = (r, db1)"
        by (cases "(if lines \<noteq> [] then prepareBuffered drv name fn subname lines (lno + 1) db
          else (None, db))") auto
      have 1: "scanLoop drv name fn ((t # ts) @ ys) subname lines lno db =
          (case r of Some err \<Rightarrow> (Inl err, db1) | None \<Rightarrow> scanLoop drv name fn (ts @ ys) sub [] (lno + 1) db1)"
        using scanLoop_marker[OF Some, of drv name fn "ts @ ys" subname lines lno db] p
        by (simp split: option.splits)
      have 2: "scanLoop drv name fn (t # ts) subname lines lno db =
          (case r of Some err \<Rightarrow> (Inl err, db1) | None \<Rightarrow> scanLoop drv name fn ts sub [] (lno + 1) db1)"
        using scanLoop_marker[OF Some, of drv name fn ts subname lines lno db] p
        by (simp split: option.splits)
      show ?thesis
        unfolding 1 2 using Cons.IH by (cases r) simp_all
    qed
  qed
qed

lemma prepareBuffered_other:
  assumes "prepareBuffered drv name fn subname lines lno db = (r, db')"
    and "k \<noteq> (if subname \<noteq> [] then name @ ''.'' @ subname else name)"
  shows "statements db' k = statements db k"
  using assms by (auto simp: prepareBuffered_def Let_def split: option.splits)

lemma dotted_neq: "subname \<noteq> a \<Longrightarrow> name @ ''.'' @ a \<noteq> (if subname \<noteq> [] then name @ ''.'' @ subname else name)"
  by auto

lemma scanLoop_keeps:
  assumes "scanLoop drv name fn ts subname lines lno db = (Inr (sub', lines', lno'), db')"
    and "subname \<noteq> a"
    and "\<forall>t \<in> set ts. rxNameline (TrimSpace t) \<noteq> Some a"
  shows "statements db' (name @ ''.'' @ a) = statements db (name @ ''.'' @ a) \<and> sub' \<noteq> a"
  using assms
proof (induction ts arbitrary: subname lines lno db)
  case Nil
  then show ?case by simp
next
  case (Cons t ts)
  have rest: "\<forall>t \<in> set ts. rxNameline (TrimSpace t) \<noteq> Some a"
    using Cons.prems(3) by simp
  show ?case
  proof (cases "TrimSpace t = []")
    case True
    with Cons.prems(1) have "scanLoop drv name fn ts subname lines lno db = (Inr (sub', lines', lno'), db')"
      by simp
    from Cons.IH[OF this Cons.prems(2) rest] show ?thesis .
  next
    case nb: False
    show ?thesis
    proof (cases "rxNameline (TrimSpace t)")
      case None
      with nb Cons.prems(1) have
        "scanLoop drv name fn ts subname
           (if \<not> rxComment (TrimSpace t) then lines @ [TrimSpace t] else lines) (lno + 1) db =
         (Inr (sub', lines', lno'), db')"
        by (simp add: Let_def split: if_splits)
      from Cons.IH[OF this Cons.prems(2) rest] show ?thesis .
    next
      case (Some sub)
      then have sa: "sub \<noteq> a" using Cons.prems(3) by auto
      obtain r db1 where p: "(if lines \<noteq> [] then prepareBuffered drv name fn subname lines (lno + 1) db
          else (None, db)) = (r, db1)"
        by (cases "(if lines \<noteq> [] then prepareBuffered drv name fn subname lines (lno + 1) db
          else (None, db))") auto
      from Cons.prems(1)[unfolded scanLoop_marker[OF Some] p]
      have r: "r = None" and step: "scanLoop drv name fn ts sub [] (lno + 1) db1 = (Inr (sub', lines', lno'), db')"
        by (auto split: option.splits)
      have k: "statements db1 (name @ ''.'' @ a) = statements db (name @ ''.'' @ a)"
        using p prepareBuffered_other[OF _ dotted_neq[OF Cons.prems(2)]]
        by (auto split: if_splits)
      from Cons.IH[OF step sa rest] k show ?thesis by simp
    qed
  qed
qed

lemma prepareBuffered_None:
  assumes "prepareBuffered drv name fn subname lines lno db = (None, db')"
  shows "db' = db\<lparr>statements := (statements db)
      ((if subname \<noteq> [] then name @ ''.'' @ subname else name) \<mapsto> Stmt (strings_Join lines [CHR 0x0A]))\<rparr>"
  using assms by (auto simp: prepareBuffered_def Let_def split: option.splits)

lemma loadStatements_fragment_anywhere:
  assumes q: "queryFS db = Some qfs"
    and o: "fs_Open qfs (name @ ''.sql'') = Inr (pre @ [m] @ seg @ post, None)"
    and m: "rxNameline (TrimSpace m) = Some a"
    and seg: "\<forall>t \<in> set seg. rxNameline (TrimSpace t) = None" "contentLines seg \<noteq> []"
    and post: "post = [] \<or> rxNameline (TrimSpace (hd post)) \<noteq> None"
    and later: "\<forall>t \<in> set post. rxNameline (TrimSpace t) \<noteq> Some a"
    and ok: "loadStatements drv name db = (None, db')"
  shows "statements db' (name @ ''.'' @ a) = Some (Stmt (strings_Join (contentLines seg) [CHR 0x0A]))"
proof -
  let ?fn = "name @ ''.sql''"
  let ?J = "Stmt (strings_Join (contentLines seg) [CHR 0x0A])"
  let ?k = "name @ ''.'' @ a"
  have a: "a \<noteq> []" using m by (rule rxNameline_nonempty)
  obtain res dbf where w: "scanLoop drv name ?fn (pre @ [m] @ seg @ post) [] [] 0 db = (res, dbf)"
    by (cases "scanLoop drv name ?fn (pre @ [m] @ seg @ post) [] [] 0 db") auto
  from ok q o w obtain sf lf nf where res: "res = Inr (sf, lf, nf)"
    and fin: "(if lf \<noteq> [] then prepareBuffered drv name ?fn sf lf nf dbf else (None, dbf)) = (None, db')"
    by (cases res) (auto simp: loadStatements_def Let_def split: if_splits)
  obtain r1 db1 where p1: "scanLoop drv name ?fn pre [] [] 0 db = (r1, db1)"
    by (cases "scanLoop drv name ?fn pre [] [] 0 db") auto
  from w res p1 obtain s1 l1 n1 where r1: "r1 = Inr (s1, l1, n1)"
    and w1: "scanLoop drv name ?fn ([m] @ seg @ post) s1 l1 n1 db1 = (Inr (sf, lf, nf), dbf)"
    by (cases r1) (auto simp: scanLoop_append[of drv name ?fn pre])
  obtain r2 db2 where p2: "(if l1 \<noteq> [] then prepareBuffered drv name ?fn s1 l1 (n1 + 1) db1
      else (None, db1)) = (r2, db2)"
    by (cases "(if l1 \<noteq> [] then prepareBuffered drv name ?fn s1 l1 (n1 + 1) db1 else (None, db1))") auto
  have "scanLoop drv name ?fn (m # seg @ post) s1 l1 n1 db1 = (Inr (sf, lf, nf), dbf)"
    using w1 by simp
  from this[unfolded scanLoop_marker[OF m] p2]
  have w2: "scanLoop drv name ?fn (seg @ post) a [] (n1 + 1) db2 = (Inr (sf, lf, nf), dbf)"
    by (auto split: option.splits)
  obtain n2 where w3: "scanLoop drv name ?fn post a (contentLines seg) n2 db2 = (Inr (sf, lf, nf), dbf)"
    using w2 scanLoop_segment[OF seg(1), of drv name ?fn post a "[]" "n1 + 1" db2] by simp
  show ?thesis
  proof (cases post)
    case Nil
    with w3 have e: "sf = a" "lf = contentLines seg" "dbf = db2" by simp_all
    with fin seg(2) have "prepareBuffered drv name ?fn a (contentLines seg) nf db2 = (None, db')"
      by simp
    from prepareBuffered_None[OF this] a show ?thesis by simp
  next
    case (Cons m' rest)
    with post obtain sub' where m': "rxNameline (TrimSpace m') = Some sub'" by auto
    with later Cons have sa: "sub' \<noteq> a" by auto
    from later Cons have lr: "\<forall>t \<in> set rest. rxNameline (TrimSpace t) \<noteq> Some a" by simp
    obtain r3 db3 where p3: "prepareBuffered drv name ?fn a (contentLines seg) (n2 + 1) db2 = (r3, db3)"
      by (cases "prepareBuffered drv name ?fn a (contentLines seg) (n2 + 1) db2") auto
    from w3[unfolded Cons scanLoop_marker[OF m']] seg(2) p3
    have r3: "r3 = None" and w4: "scanLoop drv name ?fn rest sub' [] (n2 + 1) db3 = (Inr (sf, lf, nf), dbf)"
      by (auto split: option.splits)
    from prepareBuffered_None[OF p3[unfolded r3]] a
    have k3: "statements db3 ?k = Some ?J" by simp
    from scanLoop_keeps[OF w4 sa lr] k3
    have kf: "statements dbf ?k = Some ?J" and sf: "sf \<noteq> a" by simp_all
    show ?thesis
    proof (cases "lf = []")
      case True
      with fin kf show ?thesis by simp
    next
      case False
      with fin have "prepareBuffered drv name ?fn sf lf nf dbf = (None, db')" by simp
      from prepareBuffered_other[OF this dotted_neq[OF sf]] kf show ?thesis by simp
    qed
  qed
qed

lemma demo_contentLines:
  "contentLines [''-- all users'', ''SELECT id'', [], ''  FROM users ''] = [''SELECT id'', ''FROM users'']"
  "contentLines [''SELECT a''] = [''SELECT a'']" "contentLines [''SELECT b''] = [''SELECT b'']"
  by (simp_all add: contentLines_def eval_defs)

lemma demo_no_marker:
  "\<forall>t \<in> set [''-- all users'', ''SELECT id'', [], ''  FROM users '']. rxNameline (TrimSpace t) = None"
  "\<forall>t \<in> set ([] @ [''SELECT a''] @ [''SELECT b'']). rxNameline (TrimSpace t) = None"
  by (simp_all add: eval_defs)

lemma demo_markers:
  "rxNameline (TrimSpace ''-- name: a'') = Some ''a''" "rxNameline (TrimSpace ''-- name: b'') = Some ''b''"
  by (simp_all add: eval_defs)

lemma demo_prepare:
  "prepare_err demoDriver (strings_Join [''SELECT id'', ''FROM users''] [CHR 0x0A]) (sqlDB queriesDB) = None"
  "prepare_err demoDriver (strings_Join [''SELECT a''] [CHR 0x0A]) (sqlDB queriesDB) = None"
  "prepare_err demoDriver (strings_Join [''SELECT b''] [CHR 0x0A]) (sqlDB queriesDB) = None"
  by (simp_all add: demoDriver_def strings_Join_def)

lemma demo_Join:
  "strings_Join [''SELECT id'', ''FROM users''] [CHR 0x0A] = ''SELECT id'' @ [CHR 0x0A] @ ''FROM users''"
  "strings_Join [''SELECT a''] [CHR 0x0A] = ''SELECT a''" "strings_Join [''SELECT b''] [CHR 0x0A] = ''SELECT b''"
  by (simp_all add: strings_Join_def)

lemma demo_suffix:
  "HasSuffix ''broken.sql'' ''.sql''" "TrimSuffix ''broken.sql'' ''.sql'' = ''broken''"
  "HasSuffix ''one.sql'' ''.sql''" "TrimSuffix ''one.sql'' ''.sql'' = ''one''"
  by (simp_all add: HasSuffix_def TrimSuffix_def)

lemma loadStatements_error:
  assumes q: "queryFS db = Some qfs"
    and o: "fs_Open qfs (name @ ''.sql'') = Inr (tokens, None)"
    and nb: "\<forall>t \<in> set tokens. TrimSpace t \<noteq> []"
    and l: "loadStatements drv name db = (Some err, db')"
  shows "\<exists>k qn e. err = ErrorfW ''[%s:%d] could not prepare '%s': %w'' [S (name @ ''.sql''), I (int k), S qn] e \<and>
           ((1 \<le> k \<and> k \<le> length tokens \<and> rxNameline (TrimSpace (tokens ! (k - 1))) \<noteq> None \<and>
             prepare_err drv (strings_Join (openFragment (take (k - 1) tokens)) [CHR 0x0A]) (sqlDB db) = Some e) \<or>
            (k = length tokens \<and>
             prepare_err drv (strings_Join (openFragment tokens) [CHR 0x0A]) (sqlDB db) = Some e))"
proof -
  let ?fn = "name @ ''.sql''"
  obtain r db1 where s: "scanLoop drv name ?fn tokens [] [] 0 db = (r, db1)"
    by (cases "scanLoop drv name ?fn tokens [] [] 0 db") auto
  have init: "[] = openFragment []" by simp
  show ?thesis
  proof (cases r)
    case (Inl e0)
    with l q o s have "e0 = err" by (simp add: loadStatements_def Let_def)
    with s Inl have "scanLoop drv name ?fn tokens [] [] 0 db = (Inl err, db1)" by simp
    from scanLoop_Inl[OF nb init this]
    obtain i qn e where i: "i < length tokens" "rxNameline (TrimSpace (tokens ! i)) \<noteq> None"
      "err = ErrorfW ''[%s:%d] could not prepare '%s': %w'' [S ?fn, I (0 + int i + 1), S qn] e"
      "prepare_err drv (strings_Join (openFragment ([] @ take i tokens)) [CHR 0x0A]) (sqlDB db) = Some e"
      by blast
    have "0 + int i + 1 = int (Suc i)" by simp
    with i show ?thesis
      by (intro exI[of _ "Suc i"] exI[of _ qn] exI[of _ e]) simp
  next
    case (Inr x)
    then obtain sub lines lno where x: "r = Inr (sub, lines, lno)" by (cases x) auto
    with s have s': "scanLoop drv name ?fn tokens [] [] 0 db = (Inr (sub, lines, lno), db1)" by simp
    from scanLoop_Inr[OF nb init s']
    have f: "lines = openFragment tokens" "lno = int (length tokens)" "sqlDB db1 = sqlDB db"
      by simp_all
    from l q o s' have p: "lines \<noteq> []" "prepareBuffered drv name ?fn sub lines lno db1 = (Some err, db')"
      by (auto simp: loadStatements_def Let_def split: if_splits)
    then obtain e where e: "prepare_err drv (strings_Join lines [CHR 0x0A]) (sqlDB db1) = Some e"
      "err = ErrorfW ''[%s:%d] could not prepare '%s': %w''
         [S ?fn, I lno, S (if sub \<noteq> [] then name @ ''.'' @ sub else name)] e"
      by (auto simp: prepareBuffered_def Let_def split: option.splits)
    with f show ?thesis
      by (intro exI[of _ "length tokens"] exI[of _ "if sub \<noteq> [] then name @ ''.'' @ sub else name"] exI[of _ e]) simp
  qed
qed

lemma loadEntries_continues:
  assumes "HasSuffix entryName ''.sql''" and "loadStatements drv (TrimSuffix entryName ''.sql'') db = (Some err, db')"
  shows "loadEntries drv ((entryName, False) # entries) errs db = loadEntries drv entries (errs @ [err]) db'"
  using assms by (simp add: Let_def)

subsection \<open>One transaction for the script and the version\<close>

text \<open>
  Claim C1 as stated fails at one point: when the script of the step fails with an error
  that matches \<^verbatim>\<open>fs.ErrNotExist\<close>, \<open>Upgrade\<close> returns the version reached and no
  error, because it takes every error of the step that matches \<^verbatim>\<open>fs.ErrNotExist\<close>
  for a missing file. Here the script \<^verbatim>\<open>ATTACH\<close> of version 1 fails, and
  \<open>Upgrade\<close> returns version 0 with a nil error.
\<close>

theorem Upgrade_swallows_failed_step:
  "tx_exec demoDriver ''ATTACH'' (sqlDB attachDB) = (Some ErrNotExist, sqlDB attachDB) \<and>
   Upgrade demoDriver 0 attachDB = Returns ((0, None), attachDB\<lparr>execLog := [''ATTACH'']\<rparr>)"
  by (simp add: Upgrade.simps Version_def runFileAndSetVersion_def tx_defs attachDB_def demo_defs Let_def)

text \<open>
  Claim C1, amended. Take the step that \<open>Upgrade\<close> reaches after \<open>n\<close> successful
  steps, its file readable and its transaction begun. If the script fails, whatever
  part of its changes \<^verbatim>\<open>tx.Exec\<close> left behind, or if storing the version fails,
  \<open>runFileAndSetVersion\<close> rolls back and returns that error, and the database is
  what it was before the step (only the execution log has grown); if both succeed and
  the commit succeeds, the database is the script's result with the new version. If this
  step is the one for version \<open>M\<close> and it fails in either way, \<open>Upgrade\<close> returns
  \<open>M - 1\<close>, which is the version the call started from plus \<open>n\<close>, the stored
  version is still \<open>M - 1\<close>, and the error returned is the step's error, unless that
  error matches \<^verbatim>\<open>fs.ErrNotExist\<close>, in which case no error is returned.
\<close>

theorem step_atomic:
  assumes "upgradeSteps drv target n db0 = Some db"
    and "versionFS db = Some vfs"
    and "fs_Open vfs fn = Inr (Inr content)"
    and "begin_err drv (sqlDB db) = None"
  shows
   "(tx_exec drv content (sqlDB db) = (Some e, d1) \<longrightarrow>
       Tx_Exec drv content db = (Some e, db\<lparr>sqlDB := d1, execLog := execLog db @ [content]\<rparr>) \<and>
       runFileAndSetVersion drv fn v db =
         Returns (Some (ErrorfW ''could not run SQL file '%s: %w'' [S fn] e),
                  db\<lparr>execLog := execLog db @ [content]\<rparr>)) \<and>
    (tx_exec drv content (sqlDB db) = (None, d1) \<and> set_user_version_err drv v d1 = Some e \<longrightarrow>
       runFileAndSetVersion drv fn v db =
         Returns (Some (ErrorfW ''could not update user_version to %d: %w'' [I v] e),
                  db\<lparr>execLog := execLog db @ [content]\<rparr>)) \<and>
    (tx_exec drv content (sqlDB db) = (None, d1) \<and> set_user_version_err drv v d1 = None \<and>
     commit_err drv (d1\<lparr>user_version := v\<rparr>) = None \<longrightarrow>
       runFileAndSetVersion drv fn v db =
         Returns (None, db\<lparr>execLog := execLog db @ [content], sqlDB := d1\<lparr>user_version := v\<rparr>\<rparr>)) \<and>
    (Version drv db = (M - 1, None) \<and> \<not> (0 < target \<and> target \<le> M - 1) \<and>
     fmlookup (upgrades db) M = Some fn \<and>
     (tx_exec drv content (sqlDB db) = (Some e, d1) \<and>
        err = ErrorfW ''could not run SQL file '%s: %w'' [S fn] e \<or>
      tx_exec drv content (sqlDB db) = (None, d1) \<and> set_user_version_err drv M d1 = Some e \<and>
        err = ErrorfW ''could not update user_version to %d: %w'' [I M] e) \<longrightarrow>
       Upgrade drv target db0 =
         Returns ((M - 1, if errors_Is_ErrNotExist e then None else Some err),
                  db\<lparr>execLog := execLog db @ [content]\<rparr>) \<and>
       Version drv (db\<lparr>execLog := execLog db @ [content]\<rparr>) = (M - 1, None) \<and>
       M - 1 = user_version (sqlDB db0) + int n)"
proof (intro conjI impI)
  assume a: "tx_exec drv content (sqlDB db) = (Some e, d1)"
  then show "Tx_Exec drv content db = (Some e, db\<lparr>sqlDB := d1, execLog := execLog db @ [content]\<rparr>)"
    by (simp add: Tx_Exec_def)
  from a show "runFileAndSetVersion drv fn v db =
         Returns (Some (ErrorfW ''could not run SQL file '%s: %w'' [S fn] e),
                  db\<lparr>execLog := execLog db @ [content]\<rparr>)"
    by (rule runFile_exec_fails[OF assms(2-4)])
next
  assume "tx_exec drv content (sqlDB db) = (None, d1) \<and> set_user_version_err drv v d1 = Some e"
  then show "runFileAndSetVersion drv fn v db =
         Returns (Some (ErrorfW ''could not update user_version to %d: %w'' [I v] e),
                  db\<lparr>execLog := execLog db @ [content]\<rparr>)"
    using runFile_update_fails[OF assms(2-4)] by blast
next
  assume "tx_exec drv content (sqlDB db) = (None, d1) \<and> set_user_version_err drv v d1 = None \<and>
     commit_err drv (d1\<lparr>user_version := v\<rparr>) = None"
  then show "runFileAndSetVersion drv fn v db =
         Returns (None, db\<lparr>execLog := execLog db @ [content], sqlDB := d1\<lparr>user_version := v\<rparr>\<rparr>)"
    using runFile_commits[OF assms(2-4)] by blast
next
  assume a: "Version drv db = (M - 1, None) \<and> \<not> (0 < target \<and> target \<le> M - 1) \<and>
     fmlookup (upgrades db) M = Some fn \<and>
     (tx_exec drv content (sqlDB db) = (Some e, d1) \<and>
        err = ErrorfW ''could not run SQL file '%s: %w'' [S fn] e \<or>
      tx_exec drv content (sqlDB db) = (None, d1) \<and> set_user_version_err drv M d1 = Some e \<and>
        err = ErrorfW ''could not update user_version to %d: %w'' [I M] e)"
  then have v: "Version drv db = (M - 1, None)"
    and t: "\<not> (0 < target \<and> target \<le> M - 1)"
    and l: "fmlookup (upgrades db) (M - 1 + 1) = Some fn"
    by simp_all
  from a have "runFileAndSetVersion drv fn M db =
      Returns (Some err, db\<lparr>execLog := execLog db @ [content]\<rparr>)"
    using runFile_exec_fails[OF assms(2-4), of e d1 M] runFile_update_fails[OF assms(2-4), of d1 M e]
    by blast
  then have r: "runFileAndSetVersion drv fn (M - 1 + 1) db =
      Returns (Some err, db\<lparr>execLog := execLog db @ [content]\<rparr>)"
    by simp
  have i: "errors_Is_ErrNotExist err = errors_Is_ErrNotExist e"
    using a by auto
  have "Upgrade drv target db =
      Returns ((M - 1, if errors_Is_ErrNotExist err then None else Some err),
               db\<lparr>execLog := execLog db @ [content]\<rparr>)"
    by (rule Upgrade_failed_step[OF v t l r])
  then show "Upgrade drv target db0 =
         Returns ((M - 1, if errors_Is_ErrNotExist e then None else Some err),
                  db\<lparr>execLog := execLog db @ [content]\<rparr>)"
    using upgradeSteps_Upgrade[OF assms(1)] i by simp
  from v show "Version drv (db\<lparr>execLog := execLog db @ [content]\<rparr>) = (M - 1, None)"
    by (auto simp: Version_def split: option.splits)
  from v upgradeSteps_version[OF assms(1)] show "M - 1 = user_version (sqlDB db0) + int n"
    by (simp add: Version_None_iff)
qed

text \<open>
  Three scripts from version 0: the first succeeds, the second, \<^verbatim>\<open>BAD\<close>, fails
  with a syntax error after a half of its changes. \<open>Upgrade\<close> returns version 1 with
  that error, and the database holds the first script's changes only.
\<close>

theorem step_atomic_witness:
  "upgradeSteps demoDriver 0 1 stepDB = Some stepDB1 \<and>
   tx_exec demoDriver ''BAD'' (sqlDB stepDB1) =
     (Some (External ''syntax error''),
      \<lparr>user_version = 1, data = [''CREATE TABLE a'', ''half of BAD'']\<rparr>) \<and>
   Version demoDriver stepDB1 = (2 - 1, None) \<and>
   fmlookup (upgrades stepDB1) 2 = Some ''002.up.sql'' \<and>
   runFileAndSetVersion demoDriver ''002.up.sql'' 2 stepDB1 =
     Returns (Some (ErrorfW ''could not run SQL file '%s: %w'' [S ''002.up.sql''] (External ''syntax error'')),
              stepDB1\<lparr>execLog := [''CREATE TABLE a'', ''BAD'']\<rparr>) \<and>
   Upgrade demoDriver 0 stepDB =
     Returns ((1, Some (ErrorfW ''could not run SQL file '%s: %w'' [S ''002.up.sql''] (External ''syntax error''))),
              stepDB1\<lparr>execLog := [''CREATE TABLE a'', ''BAD'']\<rparr>) \<and>
   sqlDB (stepDB1\<lparr>execLog := [''CREATE TABLE a'', ''BAD'']\<rparr>) =
     \<lparr>user_version = 1, data = [''CREATE TABLE a'']\<rparr> \<and>
   Version demoDriver (stepDB1\<lparr>execLog := [''CREATE TABLE a'', ''BAD'']\<rparr>) = (1, None)"
proof -
  let ?e = "External ''syntax error''"
  let ?d1 = "\<lparr>user_version = 1, data = [''CREATE TABLE a'', ''half of BAD'']\<rparr>"
  let ?err = "ErrorfW ''could not run SQL file '%s: %w'' [S ''002.up.sql''] ?e"
  have h: "versionFS stepDB1 = Some (scriptFS [(''001.up.sql'', ''CREATE TABLE a''), (''002.up.sql'', ''BAD''),
      (''003.up.sql'', ''CREATE TABLE c'')])"
    "fs_Open (scriptFS [(''001.up.sql'', ''CREATE TABLE a''), (''002.up.sql'', ''BAD''),
      (''003.up.sql'', ''CREATE TABLE c'')]) ''002.up.sql'' = Inr (Inr ''BAD'')"
    "begin_err demoDriver (sqlDB stepDB1) = None"
    by (simp_all add: stepDB1_def stepDB_def demo_defs)
  have g: "tx_exec demoDriver ''BAD'' (sqlDB stepDB1) = (Some ?e, ?d1)"
    "Version demoDriver stepDB1 = (2 - 1, None)" "fmlookup (upgrades stepDB1) 2 = Some ''002.up.sql''"
    "execLog stepDB1 = [''CREATE TABLE a'']"
    "sqlDB (stepDB1\<lparr>execLog := [''CREATE TABLE a'', ''BAD'']\<rparr>) = \<lparr>user_version = 1, data = [''CREATE TABLE a'']\<rparr>"
    by (simp_all add: stepDB1_def stepDB_def demo_defs Version_def)
  note t = step_atomic[OF stepDB_first_step h, of ?e ?d1 2 2 ?err]
  from t[THEN conjunct1] g(1,4)
  have r: "runFileAndSetVersion demoDriver ''002.up.sql'' 2 stepDB1 =
     Returns (Some ?err, stepDB1\<lparr>execLog := [''CREATE TABLE a'', ''BAD'']\<rparr>)"
    by simp
  from t[THEN conjunct2, THEN conjunct2, THEN conjunct2] g
  have u: "Upgrade demoDriver 0 stepDB =
     Returns ((1, Some ?err), stepDB1\<lparr>execLog := [''CREATE TABLE a'', ''BAD'']\<rparr>) \<and>
     Version demoDriver (stepDB1\<lparr>execLog := [''CREATE TABLE a'', ''BAD'']\<rparr>) = (1, None)"
    by simp
  from stepDB_first_step g(1,2,3,5) r u show ?thesis by (intro conjI) simp_all
qed

subsection \<open>Resolving a name that its file does not define\<close>

text \<open>
  Claim C2, at a failing input. The file \<^verbatim>\<open>two.sql\<close> holds the fragments
  \<^verbatim>\<open>a\<close> and \<^verbatim>\<open>b\<close> and no unnamed one. \<open>named\<close> misses \<^verbatim>\<open>two\<close>
  in the cache, loads the file, which caches \<^verbatim>\<open>two.a\<close> and \<^verbatim>\<open>two.b\<close>, looks
  \<^verbatim>\<open>two\<close> up again and returns what the map gives: a nil statement together with
  a nil error, not a "statement not found" error.
\<close>

theorem named_nil_statement_nil_error:
  "statements queriesDB ''two'' = None \<and>
   named demoDriver ''two'' queriesDB =
     ((None, None),
      queriesDB\<lparr>statements := [''two.a'' \<mapsto> Stmt ''SELECT a'', ''two.b'' \<mapsto> Stmt ''SELECT b'']\<rparr>)"
  by (simp add: named_def loadStatements_def prepareBuffered_def queriesDB_def demoDB_def
        demoDriver_def demoQueries_Open eval_defs)

text \<open>
  Claim C3, at the same input. \<open>Exec\<close> calls \<^verbatim>\<open>s.Exec\<close> on the nil statement
  that \<open>named\<close> returned without an error: the call panics.
\<close>

theorem Exec_panics_on_nil_statement:
  "Exec demoDriver ''two'' [] queriesDB = Panics"
  by (simp add: Exec_def named_def loadStatements_def prepareBuffered_def queriesDB_def demoDB_def
        demoDriver_def demoQueries_Open eval_defs)

subsection \<open>Upgrade stops at a gap\<close>

text \<open>
  Claim C4. When the next version \<open>v + 1\<close> is absent from the upgrade index,
  \<open>Upgrade\<close> returns the current version \<open>v\<close> with no error and leaves the DB as it
  is, whatever the target. With upgrades for the versions 1, 2 and 4 and the database at
  version 0, \<open>Upgrade 0\<close> runs the scripts 1 and 2, reaches version 2 and returns no
  error.
\<close>

theorem Upgrade_stops_at_gap:
  "(Version drv db = (v, None) \<and> fmlookup (upgrades db) (v + 1) = None
      \<longrightarrow> Upgrade drv target db = Returns ((v, None), db)) \<and>
   fmdom' (upgrades gapDB) = {1, 2, 4} \<and> Version demoDriver gapDB = (0, None) \<and>
   Upgrade demoDriver 0 gapDB =
     Returns ((2, None), gapDB\<lparr>sqlDB := \<lparr>user_version = 2, data = [''CREATE TABLE a'', ''CREATE TABLE b'']\<rparr>,
                               execLog := [''CREATE TABLE a'', ''CREATE TABLE b'']\<rparr>)"
proof (intro conjI impI)
  assume "Version drv db = (v, None) \<and> fmlookup (upgrades db) (v + 1) = None"
  then show "Upgrade drv target db = Returns ((v, None), db)"
    by (simp add: Upgrade.simps[of drv target db] Let_def)
next
  show "fmdom' (upgrades gapDB) = {1, 2, 4}"
    by (auto simp: gapDB_def demoDB_def fmdom'_alt_def)
next
  show "Version demoDriver gapDB = (0, None)"
    by (simp add: Version_def gapDB_def demo_defs)
next
  show "Upgrade demoDriver 0 gapDB =
     Returns ((2, None), gapDB\<lparr>sqlDB := \<lparr>user_version = 2, data = [''CREATE TABLE a'', ''CREATE TABLE b'']\<rparr>,
                               execLog := [''CREATE TABLE a'', ''CREATE TABLE b'']\<rparr>)"
    by (rule Upgrade_gapDB)
qed

text \<open>The first part at the database that has reached version 2, where 3 is absent.\<close>

theorem Upgrade_stops_at_gap_witness:
  "Version demoDriver gapDB2 = (2, None) \<and> fmlookup (upgrades gapDB2) (2 + 1) = None \<and>
   Upgrade demoDriver 0 gapDB2 = Returns ((2, None), gapDB2)"
proof -
  have h: "Version demoDriver gapDB2 = (2, None) \<and> fmlookup (upgrades gapDB2) (2 + 1) = None"
    by (simp add: Version_def gapDB2_def gapDB_def demo_defs)
  with Upgrade_stops_at_gap[of demoDriver gapDB2 2 0] show ?thesis by simp
qed

subsection \<open>Upgrade at or above the target\<close>

text \<open>
  Claim C5. For a positive target \<open>N\<close> and a stored version \<open>v \<ge> N\<close>,
  \<open>Upgrade N\<close> returns the current version \<open>v\<close> (which is \<open>N\<close> when the
  database is exactly at the target) with no error, and the DB it returns is the DB it was
  given, execution log included: no script is executed. Calling it again on the result
  gives the same result.
\<close>

theorem Upgrade_at_target_noop:
  assumes "0 < N" and "Version drv db = (v, None)" and "N \<le> v"
  shows "Upgrade drv N db = Returns ((v, None), db) \<and>
         andThen (Upgrade drv N db) (\<lambda>(r, db'). Upgrade drv N db') = Returns ((v, None), db)"
proof -
  have "Upgrade drv N db = Returns ((v, None), db)"
    using assms by (simp add: Upgrade.simps[of drv N db])
  then show ?thesis by (simp add: andThen_def)
qed

text \<open>At version 2 with target 2.\<close>

theorem Upgrade_at_target_noop_witness:
  "(0::int) < 2 \<and> Version demoDriver gapDB2 = (2, None) \<and> (2::int) \<le> 2 \<and>
   Upgrade demoDriver 2 gapDB2 = Returns ((2, None), gapDB2) \<and>
   andThen (Upgrade demoDriver 2 gapDB2) (\<lambda>(r, db'). Upgrade demoDriver 2 db') = Returns ((2, None), gapDB2)"
proof -
  have h: "Version demoDriver gapDB2 = (2, None)"
    by (simp add: Version_def gapDB2_def gapDB_def demo_defs)
  have n: "(0::int) < 2" "(2::int) \<le> 2" by simp_all
  from Upgrade_at_target_noop[OF n(1) h n(2)] h n show ?thesis by blast
qed

subsection \<open>The line number of a failed Prepare\<close>

text \<open>
  Claim C6 as stated fails. In \<^verbatim>\<open>broken.sql\<close> the failing fragment \<^verbatim>\<open>a\<close> is
  introduced by the name line on line 1, and the error carries line 3, the name line of
  the next fragment, where the buffered lines are prepared. In \<^verbatim>\<open>head.sql\<close> the
  failing fragment is unnamed and the file has 3 lines, and the error carries line 2.
\<close>

theorem prepare_error_line_is_not_the_opening_marker:
  "loadStatements demoDriver ''broken'' queriesDB =
     (Some (ErrorfW ''[%s:%d] could not prepare '%s': %w''
        [S ''broken.sql'', I 3, S ''broken.a''] (External ''syntax error'')), queriesDB) \<and>
   loadStatements demoDriver ''head'' queriesDB =
     (Some (ErrorfW ''[%s:%d] could not prepare '%s': %w''
        [S ''head.sql'', I 2, S ''head''] (External ''syntax error'')), queriesDB)"
  by (simp add: loadStatements_def prepareBuffered_def queriesDB_def demoDB_def
        demoDriver_def demoQueries_Open eval_defs)

text \<open>
  Claim C6, amended. For a query file without blank lines that opens and scans without
  error: when loading fails, the error is a failed \<^verbatim>\<open>Prepare\<close> and carries the file
  name and a number \<open>k\<close> that is either the 1-based line number of a name line, the
  text that failed being the fragment open before that line (the name line closes the
  failing fragment), or the number of lines of the file, the text that failed being the
  fragment open at the end of the file. The failure ends the loading of that file only:
  \<^verbatim>\<open>loadAllStatements\<close> records the error and goes on with the next entries.
\<close>

theorem prepare_error_location:
  assumes "queryFS db = Some qfs"
    and "fs_Open qfs (name @ ''.sql'') = Inr (tokens, None)"
    and "\<forall>t \<in> set tokens. TrimSpace t \<noteq> []"
    and "loadStatements drv name db = (Some err, db')"
  shows "(\<exists>k qn e. err = ErrorfW ''[%s:%d] could not prepare '%s': %w'' [S (name @ ''.sql''), I (int k), S qn] e \<and>
           ((1 \<le> k \<and> k \<le> length tokens \<and> rxNameline (TrimSpace (tokens ! (k - 1))) \<noteq> None \<and>
             prepare_err drv (strings_Join (openFragment (take (k - 1) tokens)) [CHR 0x0A]) (sqlDB db) = Some e) \<or>
            (k = length tokens \<and>
             prepare_err drv (strings_Join (openFragment tokens) [CHR 0x0A]) (sqlDB db) = Some e))) \<and>
         (HasSuffix entryName ''.sql'' \<and> TrimSuffix entryName ''.sql'' = name \<longrightarrow>
            loadEntries drv ((entryName, False) # entries) errs db =
              loadEntries drv entries (errs @ [err]) db')"
proof (intro conjI impI)
  show "\<exists>k qn e. err = ErrorfW ''[%s:%d] could not prepare '%s': %w'' [S (name @ ''.sql''), I (int k), S qn] e \<and>
           ((1 \<le> k \<and> k \<le> length tokens \<and> rxNameline (TrimSpace (tokens ! (k - 1))) \<noteq> None \<and>
             prepare_err drv (strings_Join (openFragment (take (k - 1) tokens)) [CHR 0x0A]) (sqlDB db) = Some e) \<or>
            (k = length tokens \<and>
             prepare_err drv (strings_Join (openFragment tokens) [CHR 0x0A]) (sqlDB db) = Some e))"
    by (rule loadStatements_error[OF assms])
next
  assume "HasSuffix entryName ''.sql'' \<and> TrimSuffix entryName ''.sql'' = name"
  then show "loadEntries drv ((entryName, False) # entries) errs db =
              loadEntries drv entries (errs @ [err]) db'"
    using assms(4) by (simp add: loadEntries_continues)
qed

text \<open>
  The file \<^verbatim>\<open>broken.sql\<close>, followed in the directory by \<^verbatim>\<open>one.sql\<close>, which is
  still loaded.
\<close>

theorem prepare_error_location_witness:
  "loadStatements demoDriver ''broken'' queriesDB =
     (Some (ErrorfW ''[%s:%d] could not prepare '%s': %w''
        [S ''broken.sql'', I 3, S ''broken.a''] (External ''syntax error'')), queriesDB) \<and>
   (\<exists>k qn e. ErrorfW ''[%s:%d] could not prepare '%s': %w''
        [S ''broken.sql'', I 3, S ''broken.a''] (External ''syntax error'') =
      ErrorfW ''[%s:%d] could not prepare '%s': %w'' [S (''broken'' @ ''.sql''), I (int k), S qn] e \<and>
      ((1 \<le> k \<and> k \<le> length [''-- name: a'', ''BAD'', ''-- name: b'', ''SELECT b''] \<and>
        rxNameline (TrimSpace ([''-- name: a'', ''BAD'', ''-- name: b'', ''SELECT b''] ! (k - 1))) \<noteq> None \<and>
        prepare_err demoDriver (strings_Join (openFragment (take (k - 1)
            [''-- name: a'', ''BAD'', ''-- name: b'', ''SELECT b''])) [CHR 0x0A]) (sqlDB queriesDB) = Some e) \<or>
       (k = length [''-- name: a'', ''BAD'', ''-- name: b'', ''SELECT b''] \<and>
        prepare_err demoDriver (strings_Join (openFragment
            [''-- name: a'', ''BAD'', ''-- name: b'', ''SELECT b'']) [CHR 0x0A]) (sqlDB queriesDB) = Some e))) \<and>
   loadEntries demoDriver [(''broken.sql'', False), (''one.sql'', False)] [] queriesDB =
     ([ErrorfW ''[%s:%d] could not prepare '%s': %w''
        [S ''broken.sql'', I 3, S ''broken.a''] (External ''syntax error'')],
      queriesDB\<lparr>statements := [''one'' \<mapsto> Stmt (''SELECT id'' @ [CHR 0x0A] @ ''FROM users'')]\<rparr>)"
proof -
  let ?err = "ErrorfW ''[%s:%d] could not prepare '%s': %w''
        [S ''broken.sql'', I 3, S ''broken.a''] (External ''syntax error'')"
  let ?toks = "[''-- name: a'', ''BAD'', ''-- name: b'', ''SELECT b'']"
  have o: "fs_Open demoQueries (''broken'' @ ''.sql'') = Inr (?toks, None)"
    by (simp add: demoQueries_Open)
  have nb: "\<forall>t \<in> set ?toks. TrimSpace t \<noteq> []"
    by (simp add: eval_defs)
  have l: "loadStatements demoDriver ''broken'' queriesDB = (Some ?err, queriesDB)"
    by (simp add: loadStatements_def prepareBuffered_def queriesDB_def demoDB_def
        demoDriver_def demoQueries_Open eval_defs)
  note t = prepare_error_location[OF queriesDB_queryFS o nb l,
      of "''broken.sql''" "[(''one.sql'', False)]" "[]"]
  have one: "loadStatements demoDriver ''one'' queriesDB =
     (None, queriesDB\<lparr>statements := [''one'' \<mapsto> Stmt (''SELECT id'' @ [CHR 0x0A] @ ''FROM users'')]\<rparr>)"
    by (simp add: loadStatements_def prepareBuffered_def queriesDB_def demoDB_def
        demoDriver_def demoQueries_Open eval_defs)
  have rest: "loadEntries demoDriver [(''one.sql'', False)] ([] @ [?err]) queriesDB =
     ([?err], queriesDB\<lparr>statements := [''one'' \<mapsto> Stmt (''SELECT id'' @ [CHR 0x0A] @ ''FROM users'')]\<rparr>)"
    by (simp add: demo_suffix one)
  from t[THEN conjunct2] have "loadEntries demoDriver [(''broken.sql'', False), (''one.sql'', False)] [] queriesDB =
     loadEntries demoDriver [(''one.sql'', False)] ([] @ [?err]) queriesDB"
    by (simp only: demo_suffix simp_thms)
  with rest have e: "loadEntries demoDriver [(''broken.sql'', False), (''one.sql'', False)] [] queriesDB =
     ([?err], queriesDB\<lparr>statements := [''one'' \<mapsto> Stmt (''SELECT id'' @ [CHR 0x0A] @ ''FROM users'')]\<rparr>)"
    by (simp only:)
  from l t[THEN conjunct1] e show ?thesis by (intro conjI)
qed

subsection \<open>The statements of a query file\<close>

text \<open>
  Claim C7. For a query file that opens and scans without error, a fragment being a
  body of at least one line of SQL (a file or a name line without such a line gives no
  fragment) that \<^verbatim>\<open>Prepare\<close> accepts. If no line is a name line, loading adds
  exactly one statement to the cache, under the file's base name, its text the content
  lines joined by a newline. If the file holds the fragments of two name lines with
  the different sub-names \<open>a\<close> and \<open>b\<close>, after lines without a name line, loading adds
  the statements \<open>name.a\<close> and \<open>name.b\<close>, each with the text of its own lines:
  the lines of \<open>a\<close> end at the name line of \<open>b\<close>, those of \<open>b\<close> at the end of the
  file, and lines of SQL before the first name line make the statement of the base
  name; \<open>named\<close> then resolves each of the two names to its statement. The same
  two statements, resolved in the same way, are in the cache after every successful
  load of a file that holds the two fragments anywhere: any lines before them, and
  after them further fragments under other sub-names.
\<close>

theorem loadStatements_fragments:
  assumes "queryFS db = Some qfs"
    and "fs_Open qfs (name @ ''.sql'') = Inr (tokens, None)"
  shows
   "((\<forall>t \<in> set tokens. rxNameline (TrimSpace t) = None) \<and> contentLines tokens \<noteq> [] \<and>
     prepare_err drv (strings_Join (contentLines tokens) [CHR 0x0A]) (sqlDB db) = None \<longrightarrow>
       loadStatements drv name db =
         (None, db\<lparr>statements := (statements db)
                   (name \<mapsto> Stmt (strings_Join (contentLines tokens) [CHR 0x0A]))\<rparr>)) \<and>
    (tokens = pre @ [ma] @ segA @ [mb] @ segB \<and>
     (\<forall>t \<in> set (pre @ segA @ segB). rxNameline (TrimSpace t) = None) \<and>
     (contentLines pre \<noteq> [] \<longrightarrow>
        prepare_err drv (strings_Join (contentLines pre) [CHR 0x0A]) (sqlDB db) = None) \<and>
     rxNameline (TrimSpace ma) = Some a \<and> rxNameline (TrimSpace mb) = Some b \<and> a \<noteq> b \<and>
     contentLines segA \<noteq> [] \<and> contentLines segB \<noteq> [] \<and>
     prepare_err drv (strings_Join (contentLines segA) [CHR 0x0A]) (sqlDB db) = None \<and>
     prepare_err drv (strings_Join (contentLines segB) [CHR 0x0A]) (sqlDB db) = None \<and>
     db' = db\<lparr>statements :=
              (if contentLines pre = [] then statements db
               else (statements db)(name \<mapsto> Stmt (strings_Join (contentLines pre) [CHR 0x0A])))
              (name @ ''.'' @ a \<mapsto> Stmt (strings_Join (contentLines segA) [CHR 0x0A]),
               name @ ''.'' @ b \<mapsto> Stmt (strings_Join (contentLines segB) [CHR 0x0A]))\<rparr> \<longrightarrow>
       loadStatements drv name db = (None, db') \<and>
       named drv (name @ ''.'' @ a) db' = ((Some (Stmt (strings_Join (contentLines segA) [CHR 0x0A])), None), db') \<and>
       named drv (name @ ''.'' @ b) db' = ((Some (Stmt (strings_Join (contentLines segB) [CHR 0x0A])), None), db')) \<and>
    (tokens = before @ [ma] @ segA @ [mb] @ segB @ post \<and>
     (\<forall>t \<in> set (segA @ segB). rxNameline (TrimSpace t) = None) \<and>
     rxNameline (TrimSpace ma) = Some a \<and> rxNameline (TrimSpace mb) = Some b \<and> a \<noteq> b \<and>
     contentLines segA \<noteq> [] \<and> contentLines segB \<noteq> [] \<and>
     (post = [] \<or> rxNameline (TrimSpace (hd post)) \<noteq> None) \<and>
     (\<forall>t \<in> set post. rxNameline (TrimSpace t) \<noteq> Some a \<and> rxNameline (TrimSpace t) \<noteq> Some b) \<and>
     loadStatements drv name db = (None, db2) \<longrightarrow>
       statements db2 (name @ ''.'' @ a) = Some (Stmt (strings_Join (contentLines segA) [CHR 0x0A])) \<and>
       statements db2 (name @ ''.'' @ b) = Some (Stmt (strings_Join (contentLines segB) [CHR 0x0A])) \<and>
       named drv (name @ ''.'' @ a) db2 = ((Some (Stmt (strings_Join (contentLines segA) [CHR 0x0A])), None), db2) \<and>
       named drv (name @ ''.'' @ b) db2 = ((Some (Stmt (strings_Join (contentLines segB) [CHR 0x0A])), None), db2))"
proof (intro conjI impI)
  assume "(\<forall>t \<in> set tokens. rxNameline (TrimSpace t) = None) \<and> contentLines tokens \<noteq> [] \<and>
     prepare_err drv (strings_Join (contentLines tokens) [CHR 0x0A]) (sqlDB db) = None"
  then show "loadStatements drv name db =
         (None, db\<lparr>statements := (statements db)
                   (name \<mapsto> Stmt (strings_Join (contentLines tokens) [CHR 0x0A]))\<rparr>)"
    using loadStatements_single[OF assms] by blast
next
  assume h: "tokens = pre @ [ma] @ segA @ [mb] @ segB \<and>
     (\<forall>t \<in> set (pre @ segA @ segB). rxNameline (TrimSpace t) = None) \<and>
     (contentLines pre \<noteq> [] \<longrightarrow>
        prepare_err drv (strings_Join (contentLines pre) [CHR 0x0A]) (sqlDB db) = None) \<and>
     rxNameline (TrimSpace ma) = Some a \<and> rxNameline (TrimSpace mb) = Some b \<and> a \<noteq> b \<and>
     contentLines segA \<noteq> [] \<and> contentLines segB \<noteq> [] \<and>
     prepare_err drv (strings_Join (contentLines segA) [CHR 0x0A]) (sqlDB db) = None \<and>
     prepare_err drv (strings_Join (contentLines segB) [CHR 0x0A]) (sqlDB db) = None \<and>
     db' = db\<lparr>statements :=
              (if contentLines pre = [] then statements db
               else (statements db)(name \<mapsto> Stmt (strings_Join (contentLines pre) [CHR 0x0A])))
              (name @ ''.'' @ a \<mapsto> Stmt (strings_Join (contentLines segA) [CHR 0x0A]),
               name @ ''.'' @ b \<mapsto> Stmt (strings_Join (contentLines segB) [CHR 0x0A]))\<rparr>"
  then have o: "fs_Open qfs (name @ ''.sql'') = Inr (pre @ [ma] @ segA @ [mb] @ segB, None)"
    using assms(2) by simp
  from h show "loadStatements drv name db = (None, db')"
    using loadStatements_two[OF assms(1) o, of drv a b] by blast
  from h have "statements db' (name @ ''.'' @ a) = Some (Stmt (strings_Join (contentLines segA) [CHR 0x0A]))"
    by simp
  then show "named drv (name @ ''.'' @ a) db' = ((Some (Stmt (strings_Join (contentLines segA) [CHR 0x0A])), None), db')"
    by (rule named_hit)
  from h have "statements db' (name @ ''.'' @ b) = Some (Stmt (strings_Join (contentLines segB) [CHR 0x0A]))"
    by simp
  then show "named drv (name @ ''.'' @ b) db' = ((Some (Stmt (strings_Join (contentLines segB) [CHR 0x0A])), None), db')"
    by (rule named_hit)
next
  assume h: "tokens = before @ [ma] @ segA @ [mb] @ segB @ post \<and>
     (\<forall>t \<in> set (segA @ segB). rxNameline (TrimSpace t) = None) \<and>
     rxNameline (TrimSpace ma) = Some a \<and> rxNameline (TrimSpace mb) = Some b \<and> a \<noteq> b \<and>
     contentLines segA \<noteq> [] \<and> contentLines segB \<noteq> [] \<and>
     (post = [] \<or> rxNameline (TrimSpace (hd post)) \<noteq> None) \<and>
     (\<forall>t \<in> set post. rxNameline (TrimSpace t) \<noteq> Some a \<and> rxNameline (TrimSpace t) \<noteq> Some b) \<and>
     loadStatements drv name db = (None, db2)"
  then have oa: "fs_Open qfs (name @ ''.sql'') = Inr (before @ [ma] @ segA @ ([mb] @ segB @ post), None)"
    and ob: "fs_Open qfs (name @ ''.sql'') = Inr ((before @ [ma] @ segA) @ [mb] @ segB @ post, None)"
    using assms(2) by simp_all
  from h have ma: "rxNameline (TrimSpace ma) = Some a" and mb: "rxNameline (TrimSpace mb) = Some b"
    and sa: "\<forall>t \<in> set segA. rxNameline (TrimSpace t) = None" "contentLines segA \<noteq> []"
    and sb: "\<forall>t \<in> set segB. rxNameline (TrimSpace t) = None" "contentLines segB \<noteq> []"
    and ok: "loadStatements drv name db = (None, db2)"
    and pb: "post = [] \<or> rxNameline (TrimSpace (hd post)) \<noteq> None"
    and lb: "\<forall>t \<in> set post. rxNameline (TrimSpace t) \<noteq> Some b"
    by auto
  have pa: "[mb] @ segB @ post = [] \<or> rxNameline (TrimSpace (hd ([mb] @ segB @ post))) \<noteq> None"
    using mb by simp
  have la: "\<forall>t \<in> set ([mb] @ segB @ post). rxNameline (TrimSpace t) \<noteq> Some a"
    using h by auto
  show ka: "statements db2 (name @ ''.'' @ a) = Some (Stmt (strings_Join (contentLines segA) [CHR 0x0A]))"
    by (rule loadStatements_fragment_anywhere[OF assms(1) oa ma sa pa la ok])
  show kb: "statements db2 (name @ ''.'' @ b) = Some (Stmt (strings_Join (contentLines segB) [CHR 0x0A]))"
    by (rule loadStatements_fragment_anywhere[OF assms(1) ob mb sb pb lb ok])
  from ka show "named drv (name @ ''.'' @ a) db2 = ((Some (Stmt (strings_Join (contentLines segA) [CHR 0x0A])), None), db2)"
    by (rule named_hit)
  from kb show "named drv (name @ ''.'' @ b) db2 = ((Some (Stmt (strings_Join (contentLines segB) [CHR 0x0A])), None), db2)"
    by (rule named_hit)
qed

text \<open>
  The files \<^verbatim>\<open>one.sql\<close> (a comment, two lines of SQL around a blank line),
  \<^verbatim>\<open>two.sql\<close> (fragments \<^verbatim>\<open>a\<close> and \<^verbatim>\<open>b\<close>) and \<^verbatim>\<open>mixed.sql\<close>
  (a line of SQL, then fragments \<^verbatim>\<open>a\<close>, \<^verbatim>\<open>b\<close> and \<^verbatim>\<open>c\<close>).
\<close>

theorem loadStatements_fragments_witness:
  "loadStatements demoDriver ''one'' queriesDB =
     (None, queriesDB\<lparr>statements := [''one'' \<mapsto> Stmt (''SELECT id'' @ [CHR 0x0A] @ ''FROM users'')]\<rparr>) \<and>
   loadStatements demoDriver ''two'' queriesDB =
     (None, queriesDB\<lparr>statements := [''two.a'' \<mapsto> Stmt ''SELECT a'', ''two.b'' \<mapsto> Stmt ''SELECT b'']\<rparr>) \<and>
   named demoDriver ''two.a''
       (queriesDB\<lparr>statements := [''two.a'' \<mapsto> Stmt ''SELECT a'', ''two.b'' \<mapsto> Stmt ''SELECT b'']\<rparr>) =
     ((Some (Stmt ''SELECT a''), None),
      queriesDB\<lparr>statements := [''two.a'' \<mapsto> Stmt ''SELECT a'', ''two.b'' \<mapsto> Stmt ''SELECT b'']\<rparr>) \<and>
   named demoDriver ''two.b''
       (queriesDB\<lparr>statements := [''two.a'' \<mapsto> Stmt ''SELECT a'', ''two.b'' \<mapsto> Stmt ''SELECT b'']\<rparr>) =
     ((Some (Stmt ''SELECT b''), None),
      queriesDB\<lparr>statements := [''two.a'' \<mapsto> Stmt ''SELECT a'', ''two.b'' \<mapsto> Stmt ''SELECT b'']\<rparr>) \<and>
   loadStatements demoDriver ''mixed'' queriesDB = (None, mixedDB) \<and>
   named demoDriver ''mixed.a'' mixedDB = ((Some (Stmt ''SELECT a''), None), mixedDB) \<and>
   named demoDriver ''mixed.b'' mixedDB = ((Some (Stmt ''SELECT b''), None), mixedDB)"
proof -
  let ?one = "[''-- all users'', ''SELECT id'', [], ''  FROM users '']"
  let ?db2 = "queriesDB\<lparr>statements := [''two.a'' \<mapsto> Stmt ''SELECT a'', ''two.b'' \<mapsto> Stmt ''SELECT b'']\<rparr>"
  have o1: "fs_Open demoQueries (''one'' @ ''.sql'') = Inr (?one, None)"
    by (simp add: demoQueries_Open)
  have o2: "fs_Open demoQueries (''two'' @ ''.sql'') =
      Inr ([''-- name: a'', ''SELECT a'', ''-- name: b'', ''SELECT b''], None)"
    by (simp add: demoQueries_Open)
  have h1: "(\<forall>t \<in> set ?one. rxNameline (TrimSpace t) = None) \<and> contentLines ?one \<noteq> [] \<and>
     prepare_err demoDriver (strings_Join (contentLines ?one) [CHR 0x0A]) (sqlDB queriesDB) = None"
    by (intro conjI demo_no_marker) (simp_all add: demo_contentLines demo_prepare)
  have s2: "[''-- name: a'', ''SELECT a'', ''-- name: b'', ''SELECT b''] =
        [] @ [''-- name: a''] @ [''SELECT a''] @ [''-- name: b''] @ [''SELECT b'']"
    by simp
  have ne: "''a'' \<noteq> ''b''" "[''SELECT a''] \<noteq> []" "[''SELECT b''] \<noteq> []"
    by simp_all
  have pre: "contentLines [] \<noteq> [] \<longrightarrow>
        prepare_err demoDriver (strings_Join (contentLines []) [CHR 0x0A]) (sqlDB queriesDB) = None"
    by simp
  have d2: "?db2 = queriesDB\<lparr>statements :=
              (if contentLines [] = [] then statements queriesDB
               else (statements queriesDB)(''two'' \<mapsto> Stmt (strings_Join (contentLines []) [CHR 0x0A])))
              (''two'' @ ''.'' @ ''a'' \<mapsto> Stmt (strings_Join (contentLines [''SELECT a'']) [CHR 0x0A]),
               ''two'' @ ''.'' @ ''b'' \<mapsto> Stmt (strings_Join (contentLines [''SELECT b'']) [CHR 0x0A]))\<rparr>"
    by (simp only: demo_contentLines demo_Join queriesDB_statements contentLines_Nil) simp
  have h2: "[''-- name: a'', ''SELECT a'', ''-- name: b'', ''SELECT b''] =
        [] @ [''-- name: a''] @ [''SELECT a''] @ [''-- name: b''] @ [''SELECT b''] \<and>
     (\<forall>t \<in> set ([] @ [''SELECT a''] @ [''SELECT b'']). rxNameline (TrimSpace t) = None) \<and>
     (contentLines [] \<noteq> [] \<longrightarrow>
        prepare_err demoDriver (strings_Join (contentLines []) [CHR 0x0A]) (sqlDB queriesDB) = None) \<and>
     rxNameline (TrimSpace ''-- name: a'') = Some ''a'' \<and> rxNameline (TrimSpace ''-- name: b'') = Some ''b'' \<and>
     ''a'' \<noteq> ''b'' \<and>
     contentLines [''SELECT a''] \<noteq> [] \<and> contentLines [''SELECT b''] \<noteq> [] \<and>
     prepare_err demoDriver (strings_Join (contentLines [''SELECT a'']) [CHR 0x0A]) (sqlDB queriesDB) = None \<and>
     prepare_err demoDriver (strings_Join (contentLines [''SELECT b'']) [CHR 0x0A]) (sqlDB queriesDB) = None \<and>
     ?db2 = queriesDB\<lparr>statements :=
              (if contentLines [] = [] then statements queriesDB
               else (statements queriesDB)(''two'' \<mapsto> Stmt (strings_Join (contentLines []) [CHR 0x0A])))
              (''two'' @ ''.'' @ ''a'' \<mapsto> Stmt (strings_Join (contentLines [''SELECT a'']) [CHR 0x0A]),
               ''two'' @ ''.'' @ ''b'' \<mapsto> Stmt (strings_Join (contentLines [''SELECT b'']) [CHR 0x0A]))\<rparr>"
    by (intro conjI s2 demo_no_marker demo_markers ne d2 pre; simp add: demo_contentLines demo_prepare)
  have r1: "loadStatements demoDriver ''one'' queriesDB =
      (None, queriesDB\<lparr>statements := (statements queriesDB)
                   (''one'' \<mapsto> Stmt (strings_Join (contentLines ?one) [CHR 0x0A]))\<rparr>)"
    by (rule loadStatements_fragments[OF queriesDB_queryFS o1, THEN conjunct1, THEN mp, OF h1])
  have r2: "loadStatements demoDriver ''two'' queriesDB = (None, ?db2) \<and>
      named demoDriver (''two'' @ ''.'' @ ''a'') ?db2 =
        ((Some (Stmt (strings_Join (contentLines [''SELECT a'']) [CHR 0x0A])), None), ?db2) \<and>
      named demoDriver (''two'' @ ''.'' @ ''b'') ?db2 =
        ((Some (Stmt (strings_Join (contentLines [''SELECT b'']) [CHR 0x0A])), None), ?db2)"
    by (rule loadStatements_fragments[OF queriesDB_queryFS o2, THEN conjunct2, THEN conjunct1, THEN mp, OF h2])
  have n: "''two'' @ ''.'' @ ''a'' = ''two.a''" "''two'' @ ''.'' @ ''b'' = ''two.b''"
    by simp_all
  have r12: "loadStatements demoDriver ''one'' queriesDB =
     (None, queriesDB\<lparr>statements := [''one'' \<mapsto> Stmt (''SELECT id'' @ [CHR 0x0A] @ ''FROM users'')]\<rparr>) \<and>
   loadStatements demoDriver ''two'' queriesDB = (None, ?db2) \<and>
   named demoDriver ''two.a'' ?db2 = ((Some (Stmt ''SELECT a''), None), ?db2) \<and>
   named demoDriver ''two.b'' ?db2 = ((Some (Stmt ''SELECT b''), None), ?db2)"
    using r1 r2 by (simp only: demo_contentLines demo_Join queriesDB_statements n)
  let ?mixed = "[''SELECT 0'', ''-- name: a'', ''SELECT a'', ''-- name: b'', ''SELECT b'', ''-- name: c'', ''SELECT c'']"
  have o3: "fs_Open demoQueries (''mixed'' @ ''.sql'') = Inr (?mixed, None)"
    by (simp add: demoQueries_Open)
  have l3: "loadStatements demoDriver ''mixed'' queriesDB = (None, mixedDB)"
    by (simp add: loadStatements_def prepareBuffered_def queriesDB_def mixedDB_def demoDB_def
          demoDriver_def demoQueries_Open eval_defs)
  have s3: "?mixed = [''SELECT 0''] @ [''-- name: a''] @ [''SELECT a''] @ [''-- name: b''] @ [''SELECT b'']
        @ [''-- name: c'', ''SELECT c'']"
    by simp
  have m3: "\<forall>t \<in> set ([''SELECT a''] @ [''SELECT b'']). rxNameline (TrimSpace t) = None"
    "[''-- name: c'', ''SELECT c''] = [] \<or> rxNameline (TrimSpace (hd [''-- name: c'', ''SELECT c''])) \<noteq> None"
    "\<forall>t \<in> set [''-- name: c'', ''SELECT c'']. rxNameline (TrimSpace t) \<noteq> Some ''a'' \<and>
        rxNameline (TrimSpace t) \<noteq> Some ''b''"
    by (simp_all add: eval_defs)
  have c3: "contentLines [''SELECT a''] \<noteq> []" "contentLines [''SELECT b''] \<noteq> []"
    by (simp_all add: demo_contentLines)
  have h3: "?mixed = [''SELECT 0''] @ [''-- name: a''] @ [''SELECT a''] @ [''-- name: b''] @ [''SELECT b'']
        @ [''-- name: c'', ''SELECT c''] \<and>
     (\<forall>t \<in> set ([''SELECT a''] @ [''SELECT b'']). rxNameline (TrimSpace t) = None) \<and>
     rxNameline (TrimSpace ''-- name: a'') = Some ''a'' \<and> rxNameline (TrimSpace ''-- name: b'') = Some ''b'' \<and>
     ''a'' \<noteq> ''b'' \<and>
     contentLines [''SELECT a''] \<noteq> [] \<and> contentLines [''SELECT b''] \<noteq> [] \<and>
     ([''-- name: c'', ''SELECT c''] = [] \<or> rxNameline (TrimSpace (hd [''-- name: c'', ''SELECT c''])) \<noteq> None) \<and>
     (\<forall>t \<in> set [''-- name: c'', ''SELECT c'']. rxNameline (TrimSpace t) \<noteq> Some ''a'' \<and>
        rxNameline (TrimSpace t) \<noteq> Some ''b'') \<and>
     loadStatements demoDriver ''mixed'' queriesDB = (None, mixedDB)"
    using s3 m3 demo_markers ne(1) c3 l3 by (intro conjI) assumption+
  have r3: "statements mixedDB (''mixed'' @ ''.'' @ ''a'') = Some (Stmt (strings_Join (contentLines [''SELECT a'']) [CHR 0x0A])) \<and>
      statements mixedDB (''mixed'' @ ''.'' @ ''b'') = Some (Stmt (strings_Join (contentLines [''SELECT b'']) [CHR 0x0A])) \<and>
      named demoDriver (''mixed'' @ ''.'' @ ''a'') mixedDB =
        ((Some (Stmt (strings_Join (contentLines [''SELECT a'']) [CHR 0x0A])), None), mixedDB) \<and>
      named demoDriver (''mixed'' @ ''.'' @ ''b'') mixedDB =
        ((Some (Stmt (strings_Join (contentLines [''SELECT b'']) [CHR 0x0A])), None), mixedDB)"
    by (rule loadStatements_fragments[OF queriesDB_queryFS o3, THEN conjunct2, THEN conjunct2, THEN mp, OF h3])
  have n3: "''mixed'' @ ''.'' @ ''a'' = ''mixed.a''" "''mixed'' @ ''.'' @ ''b'' = ''mixed.b''"
    by simp_all
  have r3': "named demoDriver ''mixed.a'' mixedDB = ((Some (Stmt ''SELECT a''), None), mixedDB) \<and>
      named demoDriver ''mixed.b'' mixedDB = ((Some (Stmt ''SELECT b''), None), mixedDB)"
    using r3 by (simp only: demo_contentLines demo_Join n3)
  from r12 l3 r3' show ?thesis by (elim conjE) (intro conjI, assumption+)
qed

subsection \<open>Downgrade\<close>

text \<open>
  Claim C8. With current version \<open>v\<close> and target \<open>T\<close>: when \<open>v \<le> T\<close> the loop
  stops; when \<open>v > T\<close> it looks up \<open>v\<close> itself in the downgrade index and stops,
  with \<open>v\<close> and no error, when \<open>v\<close> is absent; otherwise it runs that script with
  \<open>v - 1\<close> as the version to store, and after a successful step the stored version is
  \<open>v - 1\<close> and the loop goes on from there.
\<close>

theorem Downgrade_step:
  assumes "Version drv db = (v, None)"
  shows "(v \<le> T \<longrightarrow> Downgrade drv T db = Returns ((v, None), db)) \<and>
         (T < v \<and> fmlookup (downgrades db) v = None \<longrightarrow> Downgrade drv T db = Returns ((v, None), db)) \<and>
         (T < v \<and> fmlookup (downgrades db) v = Some fn \<and>
          runFileAndSetVersion drv fn (v - 1) db = Returns (None, db')
            \<longrightarrow> Downgrade drv T db = Downgrade drv T db' \<and> user_version (sqlDB db') = v - 1)"
proof (intro conjI impI)
  assume "v \<le> T"
  then show "Downgrade drv T db = Returns ((v, None), db)"
    using assms by (simp add: Downgrade.simps[of drv T db])
next
  assume "T < v \<and> fmlookup (downgrades db) v = None"
  then show "Downgrade drv T db = Returns ((v, None), db)"
    using assms by (simp add: Downgrade.simps[of drv T db])
next
  assume a: "T < v \<and> fmlookup (downgrades db) v = Some fn \<and>
          runFileAndSetVersion drv fn (v - 1) db = Returns (None, db')"
  then show "Downgrade drv T db = Downgrade drv T db'"
    using assms by (simp add: Downgrade.simps[of drv T db])
  from a show "user_version (sqlDB db') = v - 1"
    by (auto simp: runFileAndSetVersion_def tx_defs split: option.splits sum.splits prod.splits)
qed

text \<open>
  From version 2 with a downgrade script for 2 only and target 0: one step to version
  1, then the stop at the absent script for 1.
\<close>

theorem Downgrade_step_witness:
  "Version demoDriver downDB = (2, None) \<and> (0::int) < 2 \<and>
   fmlookup (downgrades downDB) 2 = Some ''002.down.sql'' \<and>
   runFileAndSetVersion demoDriver ''002.down.sql'' (2 - 1) downDB =
     Returns (None, downDB\<lparr>sqlDB := \<lparr>user_version = 1, data = [''DROP TABLE b'']\<rparr>,
                            execLog := [''DROP TABLE b'']\<rparr>) \<and>
   Downgrade demoDriver 0 downDB =
     Returns ((1, None), downDB\<lparr>sqlDB := \<lparr>user_version = 1, data = [''DROP TABLE b'']\<rparr>,
                               execLog := [''DROP TABLE b'']\<rparr>)"
proof -
  let ?db' = "downDB\<lparr>sqlDB := \<lparr>user_version = 1, data = [''DROP TABLE b'']\<rparr>, execLog := [''DROP TABLE b'']\<rparr>"
  have v: "Version demoDriver downDB = (2, None)"
    by (simp add: Version_def downDB_def demo_defs)
  have l: "fmlookup (downgrades downDB) 2 = Some ''002.down.sql''"
    by (simp add: downDB_def demo_defs)
  have r: "runFileAndSetVersion demoDriver ''002.down.sql'' (2 - 1) downDB = Returns (None, ?db')"
    by (simp add: runFileAndSetVersion_def tx_defs downDB_def demo_defs Let_def)
  have v': "Version demoDriver ?db' = (1, None)"
    by (simp add: Version_def downDB_def demo_defs)
  have l': "fmlookup (downgrades ?db') 1 = None"
    by (simp add: downDB_def demo_defs)
  from Downgrade_step[OF v, of 0 "''002.down.sql''" ?db'] l r
  have e1: "Downgrade demoDriver 0 downDB = Downgrade demoDriver 0 ?db'" by simp
  from Downgrade_step[OF v', of 0 "''002.down.sql''" ?db'] l'
  have e2: "Downgrade demoDriver 0 ?db' = Returns ((1, None), ?db')" by simp
  have n: "(0::int) < 2" by simp
  from e1 e2 v l r n show ?thesis by (simp only: simp_thms)
qed

subsection \<open>A query file without SQL\<close>

text \<open>
  Claim C9. When every line of a query file is blank or a comment line after trimming,
  and the Scanner reads it without error, \<open>loadStatements\<close> returns no error and the
  DB unchanged, so nothing is prepared and nothing is added to the statement cache; the
  scan ends with an empty buffer, that is with no fragment.
\<close>

theorem loadStatements_blank_file:
  assumes "queryFS db = Some qfs"
    and "fs_Open qfs (name @ ''.sql'') = Inr (tokens, None)"
    and "\<forall>t \<in> set tokens. TrimSpace t = [] \<or> rxComment (TrimSpace t)"
  shows "loadStatements drv name db = (None, db) \<and>
         (\<exists>sub n. scanLoop drv name (name @ ''.sql'') tokens [] [] 0 db = (Inr (sub, [], n), db))"
proof -
  from scanLoop_blank_or_comment[OF assms(3), of drv name "name @ ''.sql''" "[]" 0 db]
  obtain sub n where s: "scanLoop drv name (name @ ''.sql'') tokens [] [] 0 db = (Inr (sub, [], n), db)"
    by blast
  then show ?thesis
    using assms(1,2) by (simp add: loadStatements_def Let_def)
qed

text \<open>The file \<^verbatim>\<open>empty.sql\<close>: a comment, two blank lines and a name line.\<close>

theorem loadStatements_blank_file_witness:
  "queryFS queriesDB = Some demoQueries \<and>
   fs_Open demoQueries (''empty'' @ ''.sql'') = Inr ([''-- nothing here'', [], ''   '', ''-- name: later''], None) \<and>
   map (\<lambda>t. TrimSpace t = [] \<or> rxComment (TrimSpace t))
     [''-- nothing here'', [], ''   '', ''-- name: later''] = [True, True, True, True] \<and>
   loadStatements demoDriver ''empty'' queriesDB = (None, queriesDB)"
proof -
  have o: "fs_Open demoQueries (''empty'' @ ''.sql'') = Inr ([''-- nothing here'', [], ''   '', ''-- name: later''], None)"
    by (simp add: demoQueries_Open)
  have b: "\<forall>t \<in> set [''-- nothing here'', [], ''   '', ''-- name: later'']. TrimSpace t = [] \<or> rxComment (TrimSpace t)"
    by (simp add: eval_defs)
  have m: "map (\<lambda>t. TrimSpace t = [] \<or> rxComment (TrimSpace t))
     [''-- nothing here'', [], ''   '', ''-- name: later''] = [True, True, True, True]"
    by (simp add: eval_defs)
  from loadStatements_blank_file[OF queriesDB_queryFS o b, of demoDriver] queriesDB_queryFS o m
  show ?thesis by blast
qed

subsection \<open>Upgrade with a target that is not positive\<close>

text \<open>
  Claim C10. For every target \<open>version \<le> 0\<close>, the sentinel \<open>UpgradeNone = -1\<close>
  included, \<open>Upgrade\<close> called on the DB does what \<open>Upgrade 0\<close> (\<open>UpgradeAll\<close>)
  does: only a target greater than 0 bounds the loop. Only \<open>New\<close> reads
  \<open>MaxVersion = UpgradeNone\<close> as "do not upgrade": its upgrade stage then leaves
  errors and DB as they are, and with \<open>NoPreload\<close> the database that \<open>New\<close>
  returns is the one it was given, no script executed.
\<close>

theorem Upgrade_nonpositive_target:
  "(version \<le> 0 \<longrightarrow> Upgrade drv version db = Upgrade drv UpgradeAll db) \<and>
   (MaxVersion opts = UpgradeNone \<longrightarrow> New_upgrade drv opts (errs, d) = Returns (errs, d)) \<and>
   (MaxVersion opts = UpgradeNone \<and> NoPreload opts \<longrightarrow>
      (\<exists>d' e. New drv (Some sdb) (Some opts) = Returns (Some d', e) \<and> sqlDB d' = sdb \<and> execLog d' = []))"
  using Upgrade_nonpos[of version drv db] New_skips_upgrade[of opts drv sdb]
  by (simp add: UpgradeAll_def New_upgrade_def)

text \<open>
  At \<open>UpgradeNone\<close> on the index with versions 1, 2 and 4, \<open>Upgrade\<close> runs the
  scripts 1 and 2, while \<open>New\<close> with \<open>MaxVersion = UpgradeNone\<close> runs none.
\<close>

theorem Upgrade_nonpositive_target_witness:
  "UpgradeNone \<le> 0 \<and>
   Upgrade demoDriver UpgradeNone gapDB =
     Returns ((2, None), gapDB\<lparr>sqlDB := \<lparr>user_version = 2, data = [''CREATE TABLE a'', ''CREATE TABLE b'']\<rparr>,
                               execLog := [''CREATE TABLE a'', ''CREATE TABLE b'']\<rparr>) \<and>
   (\<exists>d' e. New demoDriver (Some \<lparr>user_version = 0, data = []\<rparr>)
       (Some \<lparr>MaxVersion = UpgradeNone, NoPreload = True, VersionFS = versionFS gapDB,
              InitFS = None, QueryFS = None\<rparr>) = Returns (Some d', e)
      \<and> sqlDB d' = \<lparr>user_version = 0, data = []\<rparr> \<and> execLog d' = [])"
  using Upgrade_nonpositive_target[of UpgradeNone demoDriver gapDB
      "\<lparr>MaxVersion = UpgradeNone, NoPreload = True, VersionFS = versionFS gapDB, InitFS = None, QueryFS = None\<rparr>"
      "[]" gapDB "\<lparr>user_version = 0, data = []\<rparr>"]
  by (simp add: UpgradeNone_def UpgradeAll_def Upgrade_gapDB)

end
